theory Spec2Isabelle
  imports Complex_Main
begin

section \<open>Values\<close>

text \<open>
  Two kinds of data occur in \<^verbatim>\<open>compyuiAPI.py\<close>.

  \<^item> Documents parsed from an HTTP response by \<^verbatim>\<open>response.json()\<close>. The client only
    reads them, so they are plain values of type \<open>json\<close>. An object keeps its members
    in document order (Python dictionaries iterate in insertion order). Numbers are the
    integers; a number with a fraction or an exponent is outside this development.

  \<^item> The workflow graph. The client mutates it in place and copies it with
    \<^verbatim>\<open>dict.copy()\<close>, so its dictionaries are objects in a store and a value of
    type \<open>pyval\<close> refers to a dictionary by its address (\<open>VRef\<close>). Lists of the graph
    are never written by the client and stay plain values.
\<close>

datatype json =
    JNull
  | JBool bool
  | JNum int
  | JStr string
  | JArr "json list"
  | JObj "(string \<times> json) list"

type_synonym addr = nat

datatype pyval =
    VNone
  | VBool bool
  | VNum int
  | VStr string
  | VList "pyval list"
  | VRef addr

type_synonym pydict = "string \<rightharpoonup> pyval"

record store =
  objs :: "addr \<Rightarrow> pydict"
  next_addr :: addr

text \<open>
  Every \<^verbatim>\<open>raise\<close> of the source and every exception of a Python built-in that the
  source can run into is a value of \<open>error\<close>. The source raises the bare class
  \<^verbatim>\<open>Exception\<close> with a message; the constructors carry what the message carries.
\<close>

datatype error =
    SubmitError int string     \<comment> \<open>line 72: status code and body text\<close>
  | MissingIdentifier json     \<comment> \<open>line 87: the parsed response\<close>
  | HistoryError int           \<comment> \<open>line 162: status code\<close>
  | JSONDecodeError            \<comment> \<open>\<^verbatim>\<open>response.json()\<close> on a body that is not JSON\<close>
  | KeyError string
  | TypeError
  | AttributeError
  | OSError string             \<comment> \<open>\<^verbatim>\<open>os.makedirs\<close> or \<^verbatim>\<open>open\<close> failing on a path\<close>
  | ValueError                 \<comment> \<open>\<^verbatim>\<open>time.sleep\<close> on a negative length or a NaN\<close>
  | OverflowError              \<comment> \<open>\<^verbatim>\<open>time.sleep\<close> on a length out of range\<close>

text \<open>
  The identifier \<open>run_workflow\<close> returns is a value it found in the response, or the
  result of \<^verbatim>\<open>str\<close> on one. \<^verbatim>\<open>str(x)\<close> is \<open>x\<close> itself when \<open>x\<close> is a string. For any
  other value it is \<^verbatim>\<open>repr(x)\<close>, a string that is never empty and whose characters
  CPython takes from its Unicode tables; they are not spelled out here, and \<open>Repr x\<close>
  stands for that string.
\<close>

datatype job_id =
    Val json
  | Repr json

text \<open>The lines the client prints, one constructor for each \<^verbatim>\<open>print\<close> of the class.\<close>

datatype event =
    UpdatedInput string string          \<comment> \<open>line 44\<close>
  | WarnMissingInput string string      \<comment> \<open>line 46, a warning\<close>
  | WarnMissingNode string              \<comment> \<open>line 48, a warning\<close>
  | ResponseData json                   \<comment> \<open>line 75\<close>
  | WorkflowStarted job_id              \<comment> \<open>line 89\<close>
  | Waiting                             \<comment> \<open>line 102\<close>
  | QueueCheckFailed int                \<comment> \<open>line 108\<close>
  | RunningJobs "json list"             \<comment> \<open>line 138\<close>
  | PendingJobs "json list"             \<comment> \<open>line 139\<close>
  | WorkflowCompleted                   \<comment> \<open>line 144\<close>
  | WarnNoHistory string                \<comment> \<open>line 170, a warning\<close>
  | WarnNoOutputs string                \<comment> \<open>line 187, a warning\<close>
  | ImageDownloaded string              \<comment> \<open>line 212\<close>
  | ImageDownloadFailed string int      \<comment> \<open>line 215\<close>

subsection \<open>Python's operators on a string key\<close>

text \<open>\<^verbatim>\<open>s in t\<close> on two strings is the substring test.\<close>

fun starts_with :: "string \<Rightarrow> string \<Rightarrow> bool" where
  "starts_with [] t = True"
| "starts_with (c # s) [] = False"
| "starts_with (c # s) (d # t) = (c = d \<and> starts_with s t)"

fun is_substring :: "string \<Rightarrow> string \<Rightarrow> bool" where
  "is_substring s [] = (s = [])"
| "is_substring s (d # t) = (starts_with s (d # t) \<or> is_substring s t)"

text \<open>
  \<^verbatim>\<open>key in x\<close>, \<^verbatim>\<open>x[key]\<close> and \<^verbatim>\<open>x[key] = v\<close> for a string \<open>key\<close> and a value of the
  graph. A dictionary tests its keys, a list its elements (only the same string is
  equal to a string), a string its substrings; anything else is not a container.
  Only a dictionary can be subscripted by a string, or assigned through one.
\<close>

definition py_in :: "store \<Rightarrow> string \<Rightarrow> pyval \<Rightarrow> error + bool" where
  "py_in h key x =
     (case x of
        VRef a \<Rightarrow> Inr (objs h a key \<noteq> None)
      | VList xs \<Rightarrow> Inr (VStr key \<in> set xs)
      | VStr t \<Rightarrow> Inr (is_substring key t)
      | _ \<Rightarrow> Inl TypeError)"

definition py_getitem :: "store \<Rightarrow> pyval \<Rightarrow> string \<Rightarrow> error + pyval" where
  "py_getitem h x key =
     (case x of
        VRef a \<Rightarrow> (case objs h a key of None \<Rightarrow> Inl (KeyError key) | Some v \<Rightarrow> Inr v)
      | _ \<Rightarrow> Inl TypeError)"

definition py_setitem :: "store \<Rightarrow> pyval \<Rightarrow> string \<Rightarrow> pyval \<Rightarrow> error + store" where
  "py_setitem h x key v =
     (case x of
        VRef a \<Rightarrow> Inr (h\<lparr>objs := (objs h)(a := (objs h a)(key \<mapsto> v))\<rparr>)
      | _ \<Rightarrow> Inl TypeError)"

text \<open>\<^verbatim>\<open>d.copy()\<close>: a new dictionary with the entries of \<open>d\<close>; the values are shared.\<close>

definition dict_copy :: "store \<Rightarrow> addr \<Rightarrow> addr \<times> store" where
  "dict_copy h d =
     (next_addr h,
      h\<lparr>objs := (objs h)(next_addr h := objs h d), next_addr := Suc (next_addr h)\<rparr>)"

section \<open>The workflow graph\<close>

subsection \<open>\<^verbatim>\<open>update_node_input\<close> (lines 29 to 50)\<close>

text \<open>
  The result is what the call returns or raises, the store after the call, and the
  lines printed. The source evaluates \<^verbatim>\<open>workflow[node_id]["inputs"]\<close> once for the test
  and once more for the assignment, with nothing written in between; the model
  evaluates it once.
\<close>

definition update_node_input ::
  "store \<Rightarrow> addr \<Rightarrow> string \<Rightarrow> string \<Rightarrow> pyval \<Rightarrow> (error + addr) \<times> store \<times> event list" where
  "update_node_input h workflow node_id input_name new_value =
     (case objs h workflow node_id of
        Some node \<Rightarrow>
          (case py_getitem h node ''inputs'' of
             Inl e \<Rightarrow> (Inl e, h, [])
           | Inr inputs \<Rightarrow>
               (case py_in h input_name inputs of
                  Inl e \<Rightarrow> (Inl e, h, [])
                | Inr True \<Rightarrow>
                    (case py_setitem h inputs input_name new_value of
                       Inl e \<Rightarrow> (Inl e, h, [])
                     | Inr h' \<Rightarrow> (Inr workflow, h', [UpdatedInput node_id input_name]))
                | Inr False \<Rightarrow> (Inr workflow, h, [WarnMissingInput node_id input_name])))
      | None \<Rightarrow> (Inr workflow, h, [WarnMissingNode node_id]))"

subsection \<open>The per-job copy of the main program (lines 276 to 279, 319 to 322)\<close>

text \<open>
  \<^verbatim>\<open>current_workflow = workflow.copy()\<close> followed by
  \<^verbatim>\<open>api.update_node_input(current_workflow, "32", "text", description)\<close>. The main program
  fixes the node and the field; they are parameters here.
\<close>

definition job_workflow ::
  "store \<Rightarrow> addr \<Rightarrow> string \<Rightarrow> string \<Rightarrow> pyval \<Rightarrow> (error + addr) \<times> store \<times> event list" where
  "job_workflow h workflow node_id input_name description =
     (case dict_copy h workflow of
        (current_workflow, h1) \<Rightarrow>
          update_node_input h1 current_workflow node_id input_name description)"

subsection \<open>Reading a graph\<close>

text \<open>
  \<open>node_record h w m\<close> is the dictionary \<^verbatim>\<open>w[m]\<close> and \<open>node_inputs h w m\<close> the dictionary
  \<^verbatim>\<open>w[m]["inputs"]\<close>, where they exist; \<open>node_input h w m g\<close> is the value
  \<^verbatim>\<open>w[m]["inputs"][g]\<close>.
\<close>

definition node_record :: "store \<Rightarrow> addr \<Rightarrow> string \<Rightarrow> pydict option" where
  "node_record h w m =
     (case objs h w m of Some (VRef a) \<Rightarrow> Some (objs h a) | _ \<Rightarrow> None)"

definition node_inputs :: "store \<Rightarrow> addr \<Rightarrow> string \<Rightarrow> pydict option" where
  "node_inputs h w m =
     (case objs h w m of
        Some (VRef a) \<Rightarrow>
          (case objs h a ''inputs'' of Some (VRef i) \<Rightarrow> Some (objs h i) | _ \<Rightarrow> None)
      | _ \<Rightarrow> None)"

definition node_input :: "store \<Rightarrow> addr \<Rightarrow> string \<Rightarrow> string \<Rightarrow> pyval option" where
  "node_input h w m g = (case node_inputs h w m of Some d \<Rightarrow> d g | None \<Rightarrow> None)"

text \<open>
  A graph that \<^verbatim>\<open>json.load\<close> has built is a tree: the graph, the node records and the
  input dictionaries are different objects, and no input dictionary belongs to two
  nodes. \<open>unshared h w n i\<close> says so for the input dictionary of node \<open>n\<close>, at address
  \<open>i\<close>: it is not the graph \<open>w\<close>, not the record of any node, and not the input
  dictionary of a node other than \<open>n\<close>.
\<close>

definition unshared :: "store \<Rightarrow> addr \<Rightarrow> string \<Rightarrow> addr \<Rightarrow> bool" where
  "unshared h w n i \<longleftrightarrow>
     i \<noteq> w \<and>
     (\<forall>m a. objs h w m = Some (VRef a) \<longrightarrow>
        a \<noteq> i \<and> (m \<noteq> n \<longrightarrow> objs h a ''inputs'' \<noteq> Some (VRef i)))"

subsection \<open>Two small stores\<close>

text \<open>
  \<open>example_store\<close> holds the graph
  \<^verbatim>\<open>{"32": {"class_type": "CLIPTextEncode", "inputs": {"text": "old", "clip": ["11", 0]}},
   "7": {"class_type": "KSampler", "inputs": {"seed": 5}}}\<close>
  as \<^verbatim>\<open>json.load\<close> builds it: the graph at address 0, every dictionary an object of its
  own. \<open>malformed_store\<close> holds a graph whose nodes do not follow the data model:
  \<^verbatim>\<open>{"1": {"class_type": "KSampler"}, "2": {"inputs": 7}, "3": {"inputs": ["seed"]},
   "4": {"inputs": "context"}, "5": "note"}\<close>.
\<close>

definition example_store :: store where
  "example_store =
     \<lparr>objs = (\<lambda>_. Map.empty)
        (0 := [''32'' \<mapsto> VRef 1, ''7'' \<mapsto> VRef 3],
         1 := [''class_type'' \<mapsto> VStr ''CLIPTextEncode'', ''inputs'' \<mapsto> VRef 2],
         2 := [''text'' \<mapsto> VStr ''old'', ''clip'' \<mapsto> VList [VStr ''11'', VNum 0]],
         3 := [''class_type'' \<mapsto> VStr ''KSampler'', ''inputs'' \<mapsto> VRef 4],
         4 := [''seed'' \<mapsto> VNum 5]),
      next_addr = 5\<rparr>"

definition malformed_store :: store where
  "malformed_store =
     \<lparr>objs = (\<lambda>_. Map.empty)
        (0 := [''1'' \<mapsto> VRef 1, ''2'' \<mapsto> VRef 2, ''3'' \<mapsto> VRef 3, ''4'' \<mapsto> VRef 4,
               ''5'' \<mapsto> VStr ''note''],
         1 := [''class_type'' \<mapsto> VStr ''KSampler''],
         2 := [''inputs'' \<mapsto> VNum 7],
         3 := [''inputs'' \<mapsto> VList [VStr ''seed'']],
         4 := [''inputs'' \<mapsto> VStr ''context'']),
      next_addr = 5\<rparr>"

section \<open>Parsed documents\<close>

subsection \<open>Truth value, membership, subscript, \<^verbatim>\<open>get\<close>, \<^verbatim>\<open>items\<close>, iteration\<close>

text \<open>
  The members of a \<open>JObj\<close> are those of the dictionary \<^verbatim>\<open>response.json()\<close> returns, so a
  key occurs once. \<open>truthy\<close> is the truth value Python gives a value in \<^verbatim>\<open>if x\<close> and
  \<^verbatim>\<open>not x\<close>.
\<close>

fun truthy :: "json \<Rightarrow> bool" where
  "truthy JNull = False"
| "truthy (JBool b) = b"
| "truthy (JNum n) = (n \<noteq> 0)"
| "truthy (JStr s) = (s \<noteq> [])"
| "truthy (JArr xs) = (xs \<noteq> [])"
| "truthy (JObj kvs) = (kvs \<noteq> [])"

definition json_in :: "string \<Rightarrow> json \<Rightarrow> error + bool" where
  "json_in key x =
     (case x of
        JObj kvs \<Rightarrow> Inr (map_of kvs key \<noteq> None)
      | JArr xs \<Rightarrow> Inr (JStr key \<in> set xs)
      | JStr t \<Rightarrow> Inr (is_substring key t)
      | _ \<Rightarrow> Inl TypeError)"

definition json_getitem :: "json \<Rightarrow> string \<Rightarrow> error + json" where
  "json_getitem x key =
     (case x of
        JObj kvs \<Rightarrow> (case map_of kvs key of None \<Rightarrow> Inl (KeyError key) | Some v \<Rightarrow> Inr v)
      | _ \<Rightarrow> Inl TypeError)"

text \<open>\<^verbatim>\<open>x.get(key, default)\<close> and \<^verbatim>\<open>x.items()\<close> exist on dictionaries only.\<close>

definition json_get :: "json \<Rightarrow> string \<Rightarrow> json \<Rightarrow> error + json" where
  "json_get x key dflt =
     (case x of
        JObj kvs \<Rightarrow> Inr (case map_of kvs key of None \<Rightarrow> dflt | Some v \<Rightarrow> v)
      | _ \<Rightarrow> Inl AttributeError)"

definition json_items :: "json \<Rightarrow> error + (string \<times> json) list" where
  "json_items x = (case x of JObj kvs \<Rightarrow> Inr kvs | _ \<Rightarrow> Inl AttributeError)"

text \<open>
  \<^verbatim>\<open>for item in x\<close>: a list gives its elements, a dictionary its keys, a string its
  characters (each a string of length one).
\<close>

definition json_iter :: "json \<Rightarrow> error + json list" where
  "json_iter x =
     (case x of
        JArr xs \<Rightarrow> Inr xs
      | JObj kvs \<Rightarrow> Inr (map (\<lambda>kv. JStr (fst kv)) kvs)
      | JStr t \<Rightarrow> Inr (map (\<lambda>c. JStr [c]) t)
      | _ \<Rightarrow> Inl TypeError)"

subsection \<open>\<^verbatim>\<open>str\<close>\<close>

text \<open>
  \<^verbatim>\<open>str(x)\<close> for a value of a document, and the truth value of an identifier: the
  \<^verbatim>\<open>repr\<close> of a value that is not a string has at least one character.
\<close>

definition py_str :: "json \<Rightarrow> job_id" where
  "py_str x = (case x of JStr s \<Rightarrow> Val (JStr s) | _ \<Rightarrow> Repr x)"

fun truthy_id :: "job_id \<Rightarrow> bool" where
  "truthy_id (Val v) = truthy v"
| "truthy_id (Repr x) = True"

subsection \<open>Paths (\<^verbatim>\<open>posixpath\<close>)\<close>

text \<open>
  \<^verbatim>\<open>os.path.basename(p)\<close> is what follows the last slash of \<open>p\<close>;
  \<^verbatim>\<open>os.path.join(a, b)\<close> is \<open>b\<close> when \<open>b\<close> starts with a slash, and otherwise \<open>a\<close> and \<open>b\<close>
  with one slash between them unless \<open>a\<close> is empty or ends with one.
\<close>

definition basename :: "string \<Rightarrow> string" where
  "basename p = rev (takeWhile (\<lambda>c. c \<noteq> CHR ''/'') (rev p))"

definition path_join :: "string \<Rightarrow> string \<Rightarrow> string" where
  "path_join a b =
     (if starts_with ''/'' b then b
      else if a = [] \<or> last a = CHR ''/'' then a @ b
      else a @ ''/'' @ b)"

section \<open>The client and the server\<close>

text \<open>
  A response of the server, as the client reads it: \<^verbatim>\<open>status_code\<close>, \<^verbatim>\<open>text\<close>,
  \<^verbatim>\<open>content\<close>, and the result of \<^verbatim>\<open>json()\<close>, which is \<open>None\<close> when the body is not JSON
  and the call raises. The server is a parameter: \<open>post\<close> answers the request of
  \<open>run_workflow\<close>, and \<open>get n url\<close> is the answer to the \<open>n\<close>-th GET the client sends, so
  the answers to one URL can change over time. The calls of \<^verbatim>\<open>requests\<close> are taken to
  return a response; a connection that fails is outside this development.
\<close>

record response =
  status_code :: int
  body_text :: string
  content :: string
  json_body :: "json option"

record api =
  server_address :: string
  history_data :: json

record 'w prompt_data =
  prompt :: 'w
  client_id :: string

subsection \<open>\<^verbatim>\<open>run_workflow\<close> (lines 52 to 90)\<close>

text \<open>Lines 63 to 66: the body of the request.\<close>

definition prompt_request :: "'w \<Rightarrow> string option \<Rightarrow> 'w prompt_data" where
  "prompt_request workflow cid =
     \<lparr>prompt = workflow,
      client_id = (case cid of Some c \<Rightarrow> (if c \<noteq> [] then c else []) | None \<Rightarrow> [])\<rparr>"

text \<open>Lines 78 to 84: the value of \<^verbatim>\<open>prompt_id\<close> after the \<^verbatim>\<open>if\<close>/\<^verbatim>\<open>elif\<close> chain.\<close>

definition find_prompt_id :: "json \<Rightarrow> error + job_id" where
  "find_prompt_id result =
     (case json_in ''prompt_id'' result of
        Inl e \<Rightarrow> Inl e
      | Inr True \<Rightarrow>
          (case json_getitem result ''prompt_id'' of Inl e \<Rightarrow> Inl e | Inr v \<Rightarrow> Inr (Val v))
      | Inr False \<Rightarrow>
          (case json_in ''id'' result of
             Inl e \<Rightarrow> Inl e
           | Inr True \<Rightarrow>
               (case json_getitem result ''id'' of Inl e \<Rightarrow> Inl e | Inr v \<Rightarrow> Inr (Val v))
           | Inr False \<Rightarrow>
               (case result of
                  JArr (x # xs) \<Rightarrow> Inr (py_str x)
                | _ \<Rightarrow> Inr (Val (JStr [])))))"

text \<open>Lines 74 to 90: what the client does with a response of status 200.\<close>

definition read_prompt_id :: "response \<Rightarrow> (error + job_id) \<times> event list" where
  "read_prompt_id response =
     (case json_body response of
        None \<Rightarrow> (Inl JSONDecodeError, [])
      | Some result \<Rightarrow>
          (case find_prompt_id result of
             Inl e \<Rightarrow> (Inl e, [ResponseData result])
           | Inr prompt_id \<Rightarrow>
               if \<not> truthy_id prompt_id
               then (Inl (MissingIdentifier result), [ResponseData result])
               else (Inr prompt_id, [ResponseData result, WorkflowStarted prompt_id])))"

text \<open>Line 69: the response to the request.\<close>

definition post_prompt ::
  "(string \<Rightarrow> 'w prompt_data \<Rightarrow> response) \<Rightarrow> api \<Rightarrow> 'w \<Rightarrow> string option \<Rightarrow> response" where
  "post_prompt post self workflow cid =
     post (server_address self @ ''/prompt'') (prompt_request workflow cid)"

definition run_workflow ::
  "(string \<Rightarrow> 'w prompt_data \<Rightarrow> response) \<Rightarrow> api \<Rightarrow> 'w \<Rightarrow> string option
     \<Rightarrow> (error + job_id) \<times> event list" where
  "run_workflow post self workflow cid =
     (let response = post_prompt post self workflow cid
      in if status_code response \<noteq> 200
         then (Inl (SubmitError (status_code response) (body_text response)), [])
         else read_prompt_id response)"

text \<open>
  The sentence of the specification about the identifier, as it is worded: the
  candidates are the value of the field \<^verbatim>\<open>prompt_id\<close>, the value of the field \<^verbatim>\<open>id\<close>,
  and the first element of a sequence as a string, in this order, and the result is
  the first candidate that is not empty.
\<close>

definition spec_candidates :: "json \<Rightarrow> job_id list" where
  "spec_candidates r =
     (case r of
        JObj kvs \<Rightarrow>
          (case map_of kvs ''prompt_id'' of Some v \<Rightarrow> [Val v] | None \<Rightarrow> [])
          @ (case map_of kvs ''id'' of Some v \<Rightarrow> [Val v] | None \<Rightarrow> [])
      | JArr (x # xs) \<Rightarrow> [py_str x]
      | _ \<Rightarrow> [])"

definition spec_identifier :: "json \<Rightarrow> error + job_id" where
  "spec_identifier r =
     (case filter truthy_id (spec_candidates r) of
        [] \<Rightarrow> Inl (MissingIdentifier r)
      | v # vs \<Rightarrow> Inr v)"

text \<open>A server that answers every request with the same status and document.\<close>

definition json_response :: "int \<Rightarrow> string \<Rightarrow> json \<Rightarrow> response" where
  "json_response code body doc =
     \<lparr>status_code = code, body_text = body, content = body, json_body = Some doc\<rparr>"

definition fixed_server :: "response \<Rightarrow> string \<Rightarrow> unit prompt_data \<Rightarrow> response" where
  "fixed_server r url request = r"

definition local_api :: api where
  "local_api = \<lparr>server_address = ''http://127.0.0.1:8188'', history_data = JObj []\<rparr>"

subsection \<open>\<^verbatim>\<open>wait_for_completion\<close> (lines 92 to 148)\<close>

text \<open>
  Lines 124 to 128 (and again 132 to 136): the identifiers of the entries of a queue.
  An entry is an object with a key \<^verbatim>\<open>prompt_id\<close>, or a list that is not empty, whose
  first element is taken; any other entry is passed over.
\<close>

fun prompt_ids :: "json list \<Rightarrow> json list" where
  "prompt_ids [] = []"
| "prompt_ids (item # items) =
     (case item of
        JObj kvs \<Rightarrow> (case map_of kvs ''prompt_id'' of Some v \<Rightarrow> [v] | None \<Rightarrow> [])
      | JArr (x # xs) \<Rightarrow> [x]
      | _ \<Rightarrow> [])
     @ prompt_ids items"

text \<open>
  Lines 122 to 128 for \<^verbatim>\<open>queue_running\<close> and 130 to 136 for \<^verbatim>\<open>queue_pending\<close>: the list
  stays empty unless the key is in the document and its value is a list.
\<close>

definition queue_ids :: "json \<Rightarrow> string \<Rightarrow> error + json list" where
  "queue_ids queue_data key =
     (case json_in key queue_data of
        Inl e \<Rightarrow> Inl e
      | Inr False \<Rightarrow> Inr []
      | Inr True \<Rightarrow>
          (case json_getitem queue_data key of
             Inl e \<Rightarrow> Inl e
           | Inr (JArr items) \<Rightarrow> Inr (prompt_ids items)
           | Inr _ \<Rightarrow> Inr []))"

text \<open>
  Lines 107 to 145: what one pass of the loop makes of the response. \<open>Failed\<close> is the
  branch of line 107, \<open>Raised\<close> an exception that leaves the loop, \<open>Done\<close> the
  \<^verbatim>\<open>return True\<close> of line 145, \<open>Busy\<close> the fall through to the sleep of line 148. The
  identifier awaited is a string (the parameter is annotated \<^verbatim>\<open>str\<close>), and only the
  same string is equal to it.
\<close>

datatype outcome =
    is_failed: Failed int
  | is_raised: Raised error
  | is_busy: Busy "json list" "json list"
  | is_done: Done "json list" "json list"

definition poll :: "response \<Rightarrow> string \<Rightarrow> outcome" where
  "poll response prompt_id =
     (if status_code response \<noteq> 200 then Failed (status_code response)
      else
        (case json_body response of
           None \<Rightarrow> Raised JSONDecodeError
         | Some queue_data \<Rightarrow>
             (case queue_ids queue_data ''queue_running'' of
                Inl e \<Rightarrow> Raised e
              | Inr running_prompts \<Rightarrow>
                  (case queue_ids queue_data ''queue_pending'' of
                     Inl e \<Rightarrow> Raised e
                   | Inr pending_prompts \<Rightarrow>
                       if JStr prompt_id \<notin> set running_prompts
                          \<and> JStr prompt_id \<notin> set pending_prompts
                          \<and> running_prompts = []
                       then Done running_prompts pending_prompts
                       else Busy running_prompts pending_prompts))))"

text \<open>
  A pass that goes on to the sleep of line 109 or line 148; when the sleep returns, the
  loop polls again.
\<close>

definition retries :: "outcome \<Rightarrow> bool" where
  "retries out \<longleftrightarrow> is_failed out \<or> is_busy out"

text \<open>
  The length of a sleep is a Python float: a number, one of the two infinities, or a
  NaN. \<^verbatim>\<open>time.sleep(t)\<close> converts \<open>t\<close> to a number of nanoseconds of 64 bits before it
  sleeps: it raises \<^verbatim>\<open>ValueError\<close> for a NaN, \<^verbatim>\<open>OverflowError\<close> for a length out of that
  range (the infinities among them), \<^verbatim>\<open>ValueError\<close> for a negative length within the
  range, and sleeps for any other length. A number is a real here; the rounding of
  floating point at the two ends of the range is not represented.
\<close>

datatype py_float = Finite real | PosInf | NegInf | NaN

definition py_sleep :: "py_float \<Rightarrow> error option" where
  "py_sleep t =
     (case t of
        NaN \<Rightarrow> Some ValueError
      | PosInf \<Rightarrow> Some OverflowError
      | NegInf \<Rightarrow> Some OverflowError
      | Finite x \<Rightarrow>
          if x * 10 ^ 9 < - (2 ^ 63) \<or> 2 ^ 63 \<le> x * 10 ^ 9 then Some OverflowError
          else if x < 0 then Some ValueError
          else None)"

text \<open>
  The state of the loop: the number of GET requests sent so far, the sleeps taken,
  each with its length, and the lines printed.
\<close>

record wait_state =
  polls :: nat
  slept :: "py_float list"
  wlog :: "event list"

text \<open>Line 105: the response the \<open>k\<close>-th poll (counted from 0) receives.\<close>

definition queue_response :: "(nat \<Rightarrow> string \<Rightarrow> response) \<Rightarrow> api \<Rightarrow> nat \<Rightarrow> response" where
  "queue_response get self k = get k (server_address self @ ''/queue'')"

text \<open>
  The loop of lines 103 to 148. It has no bound, so it is a partial function: the
  value \<open>None\<close> stands for a call that never returns. A sleep that raises (lines 109
  and 148) ends the call after the lines of the pass are printed.
\<close>

partial_function (option) wait_loop ::
  "(nat \<Rightarrow> string \<Rightarrow> response) \<Rightarrow> api \<Rightarrow> string \<Rightarrow> py_float \<Rightarrow> wait_state
     \<Rightarrow> ((error + bool) \<times> wait_state) option" where
  "wait_loop get self prompt_id check_interval s =
     (case poll (queue_response get self (polls s)) prompt_id of
        Failed code \<Rightarrow>
          (case py_sleep check_interval of
             Some e \<Rightarrow>
               Some (Inl e,
                     s\<lparr>polls := Suc (polls s), wlog := wlog s @ [QueueCheckFailed code]\<rparr>)
           | None \<Rightarrow>
               wait_loop get self prompt_id check_interval
                 (s\<lparr>polls := Suc (polls s),
                    slept := slept s @ [check_interval],
                    wlog := wlog s @ [QueueCheckFailed code]\<rparr>))
      | Raised e \<Rightarrow> Some (Inl e, s\<lparr>polls := Suc (polls s)\<rparr>)
      | Done running pending \<Rightarrow>
          Some (Inr True,
                s\<lparr>polls := Suc (polls s),
                  wlog := wlog s @ [RunningJobs running, PendingJobs pending, WorkflowCompleted]\<rparr>)
      | Busy running pending \<Rightarrow>
          (case py_sleep check_interval of
             Some e \<Rightarrow>
               Some (Inl e,
                     s\<lparr>polls := Suc (polls s),
                       wlog := wlog s @ [RunningJobs running, PendingJobs pending]\<rparr>)
           | None \<Rightarrow>
               wait_loop get self prompt_id check_interval
                 (s\<lparr>polls := Suc (polls s),
                    slept := slept s @ [check_interval],
                    wlog := wlog s @ [RunningJobs running, PendingJobs pending]\<rparr>)))"

declare wait_loop.simps [code]

definition wait_for_completion ::
  "(nat \<Rightarrow> string \<Rightarrow> response) \<Rightarrow> api \<Rightarrow> string \<Rightarrow> py_float
     \<Rightarrow> ((error + bool) \<times> wait_state) option" where
  "wait_for_completion get self prompt_id check_interval =
     wait_loop get self prompt_id check_interval \<lparr>polls = 0, slept = [], wlog = [Waiting]\<rparr>"

subsection \<open>A run of the loop, as the specification describes it\<close>

text \<open>
  The parsed running and pending lists of a queue document that is an object: the
  identifiers of the entries under the key when its value is a list, and no
  identifier otherwise.
\<close>

definition spec_queue :: "(string \<times> json) list \<Rightarrow> string \<Rightarrow> json list" where
  "spec_queue kvs key =
     (case map_of kvs key of Some (JArr items) \<Rightarrow> prompt_ids items | _ \<Rightarrow> [])"

text \<open>
  The termination rule: the identifier is absent from both lists and the running list
  is empty.
\<close>

definition spec_complete :: "string \<Rightarrow> json list \<Rightarrow> json list \<Rightarrow> bool" where
  "spec_complete prompt_id running pending \<longleftrightarrow>
     JStr prompt_id \<notin> set running \<and> JStr prompt_id \<notin> set pending \<and> running = []"

text \<open>
  The lines one pass prints, and the lines printed before poll \<open>k\<close> when every earlier
  poll was retried.
\<close>

definition pass_log :: "outcome \<Rightarrow> event list" where
  "pass_log out =
     (case out of
        Failed code \<Rightarrow> [QueueCheckFailed code]
      | Raised e \<Rightarrow> []
      | Busy running pending \<Rightarrow> [RunningJobs running, PendingJobs pending]
      | Done running pending \<Rightarrow> [RunningJobs running, PendingJobs pending, WorkflowCompleted])"

definition run_log :: "(nat \<Rightarrow> string \<Rightarrow> response) \<Rightarrow> api \<Rightarrow> string \<Rightarrow> nat \<Rightarrow> event list" where
  "run_log get self prompt_id k =
     Waiting # concat (map (\<lambda>j. pass_log (poll (queue_response get self j) prompt_id)) [0..<k])"

text \<open>What a pass that is not retried makes the call return or raise.\<close>

definition pass_result :: "outcome \<Rightarrow> error + bool" where
  "pass_result out = (case out of Raised e \<Rightarrow> Inl e | _ \<Rightarrow> Inr True)"

text \<open>
  Servers for the examples. \<open>two_polls\<close> shows \<^verbatim>\<open>job1\<close> running on the first poll and
  both queues empty from the second on. \<open>busy_queue\<close> shows \<^verbatim>\<open>job1\<close> pending and nothing
  running on the first poll (the entry written as a list, next to an entry that is
  neither an object nor a list), answers the second poll with status 503, shows
  \<^verbatim>\<open>job1\<close> running on the third (the entry written as an object), another job
  \<^verbatim>\<open>job2\<close> running on the fourth, and both queues empty afterwards. \<open>outage\<close> answers
  three polls with the statuses 500, 404 and 503 and then with status 200 and a body
  that is not JSON. \<open>recovering\<close> answers the first poll with status 503 and shows both
  queues empty afterwards. \<open>null_reply\<close> answers every poll with status 200 and the
  document \<^verbatim>\<open>null\<close>.
\<close>

definition queue_doc :: "json list \<Rightarrow> json list \<Rightarrow> json" where
  "queue_doc running pending =
     JObj [(''queue_running'', JArr running), (''queue_pending'', JArr pending)]"

definition two_polls :: "nat \<Rightarrow> string \<Rightarrow> response" where
  "two_polls n url =
     (if n = 0 then json_response 200 [] (queue_doc [JObj [(''prompt_id'', JStr ''job1'')]] [])
      else json_response 200 [] (queue_doc [] []))"

definition busy_queue :: "nat \<Rightarrow> string \<Rightarrow> response" where
  "busy_queue n url =
     (if n = 0 then
        json_response 200 [] (queue_doc [] [JArr [JStr ''job1'', JNum 2], JNum 3])
      else if n = 1 then json_response 503 ''unavailable'' JNull
      else if n = 2 then
        json_response 200 [] (queue_doc [JObj [(''prompt_id'', JStr ''job1'')]] [])
      else if n = 3 then
        json_response 200 [] (queue_doc [JArr [JStr ''job2'', JNum 1]] [])
      else json_response 200 [] (queue_doc [] []))"

definition outage :: "nat \<Rightarrow> string \<Rightarrow> response" where
  "outage n url =
     (if n = 0 then json_response 500 ''error'' JNull
      else if n = 1 then json_response 404 ''not found'' JNull
      else if n = 2 then json_response 503 ''unavailable'' JNull
      else \<lparr>status_code = 200, body_text = ''starting'', content = ''starting'',
             json_body = None\<rparr>)"

definition history_doc :: json where
  "history_doc =
     JObj [(''p42'', JObj [(''outputs'',
        JObj [(''9'', JObj [(''images'', JArr [JObj [(''filename'', JStr ''img_0001_.png'')]])])])])]"

definition history_server :: "nat \<Rightarrow> string \<Rightarrow> response" where
  "history_server n url = json_response 200 [] history_doc"

definition recovering :: "nat \<Rightarrow> string \<Rightarrow> response" where
  "recovering n url =
     (if n = 0 then json_response 503 ''unavailable'' JNull
      else json_response 200 [] (queue_doc [] []))"

definition null_reply :: "nat \<Rightarrow> string \<Rightarrow> response" where
  "null_reply n url = json_response 200 ''null'' JNull"

subsection \<open>\<^verbatim>\<open>get_history\<close> (lines 150 to 171)\<close>

text \<open>
  \<open>n\<close> is the number of the GET request. The result is what the call returns or
  raises, the client after the call (line 165 stores the document), and the lines
  printed.
\<close>

text \<open>Line 159: the response to the request.\<close>

definition history_response :: "(nat \<Rightarrow> string \<Rightarrow> response) \<Rightarrow> api \<Rightarrow> nat \<Rightarrow> response" where
  "history_response get self n = get n (server_address self @ ''/history'')"

definition get_history ::
  "(nat \<Rightarrow> string \<Rightarrow> response) \<Rightarrow> nat \<Rightarrow> api \<Rightarrow> string \<Rightarrow> (error + json) \<times> api \<times> event list" where
  "get_history get n self prompt_id =
     (let response = history_response get self n
      in if status_code response \<noteq> 200
         then (Inl (HistoryError (status_code response)), self, [])
         else
           (case json_body response of
              None \<Rightarrow> (Inl JSONDecodeError, self, [])
            | Some history \<Rightarrow>
                (case json_in prompt_id history of
                   Inl e \<Rightarrow> (Inl e, self\<lparr>history_data := history\<rparr>, [])
                 | Inr True \<Rightarrow>
                     (case json_getitem history prompt_id of
                        Inl e \<Rightarrow> (Inl e, self\<lparr>history_data := history\<rparr>, [])
                      | Inr entry \<Rightarrow> (Inr entry, self\<lparr>history_data := history\<rparr>, []))
                 | Inr False \<Rightarrow>
                     (Inr (JObj []), self\<lparr>history_data := history\<rparr>, [WarnNoHistory prompt_id]))))"

subsection \<open>\<^verbatim>\<open>download_images\<close> (lines 173 to 217)\<close>

text \<open>
  Besides the server, \<open>download_images\<close> meets the file system. Whether
  \<^verbatim>\<open>os.makedirs\<close> and \<^verbatim>\<open>open\<close> (with the write that follows) succeed on a path is for
  the surroundings to say, so both are parameters: \<open>None\<close> for success, or the exception
  raised. The paths are those of a POSIX system.
\<close>

record env =
  http_get :: "nat \<Rightarrow> string \<Rightarrow> response"
  fs_makedirs :: "string \<Rightarrow> error option"
  fs_open :: "string \<Rightarrow> error option"

text \<open>
  The state: the client, the number of GET requests sent so far, the directories
  created, the files written with their content, in order, the list
  \<^verbatim>\<open>downloaded_files\<close>, and the lines printed.
\<close>

record dl_state =
  client :: api
  reqs :: nat
  dirs :: "string list"
  files :: "(string \<times> string) list"
  downloaded :: "string list"
  dlog :: "event list"

text \<open>Lines 204 and 205.\<close>

definition view_url :: "string \<Rightarrow> string \<Rightarrow> string" where
  "view_url server filename = server @ ''/view?filename='' @ filename"

definition local_file :: "string \<Rightarrow> string \<Rightarrow> string" where
  "local_file output_dir filename = path_join output_dir (basename filename)"

text \<open>
  Lines 201 to 215, the body of the innermost loop for one \<^verbatim>\<open>image_data\<close>. The first
  component of the result is the exception raised, if any. A file name that is true
  and not a string makes \<^verbatim>\<open>os.path.basename\<close> raise before any request is sent.
\<close>

definition download_one ::
  "env \<Rightarrow> string \<Rightarrow> string \<Rightarrow> json \<Rightarrow> dl_state \<Rightarrow> error option \<times> dl_state" where
  "download_one E server output_dir image_data s =
     (case json_get image_data ''filename'' (JStr []) of
        Inl e \<Rightarrow> (Some e, s)
      | Inr filename \<Rightarrow>
          if truthy filename then
            (case filename of
               JStr fn \<Rightarrow>
                 (let image_url = view_url server fn;
                      local_path = local_file output_dir fn;
                      response = http_get E (reqs s) image_url;
                      s1 = s\<lparr>reqs := Suc (reqs s)\<rparr>
                  in if status_code response = 200 then
                       (case fs_open E local_path of
                          Some e \<Rightarrow> (Some e, s1)
                        | None \<Rightarrow>
                            (None,
                             s1\<lparr>files := files s1 @ [(local_path, content response)],
                                downloaded := downloaded s1 @ [local_path],
                                dlog := dlog s1 @ [ImageDownloaded local_path]\<rparr>))
                     else
                       (None,
                        s1\<lparr>dlog := dlog s1 @ [ImageDownloadFailed fn (status_code response)]\<rparr>))
             | _ \<Rightarrow> (Some TypeError, s))
          else (None, s))"

text \<open>Line 200: \<^verbatim>\<open>for image_data in output_data\<close>.\<close>

fun download_list ::
  "env \<Rightarrow> string \<Rightarrow> string \<Rightarrow> json list \<Rightarrow> dl_state \<Rightarrow> error option \<times> dl_state" where
  "download_list E server output_dir [] s = (None, s)"
| "download_list E server output_dir (image_data # rest) s =
     (case download_one E server output_dir image_data s of
        (Some e, s') \<Rightarrow> (Some e, s')
      | (None, s') \<Rightarrow> download_list E server output_dir rest s')"

text \<open>Lines 198 and 199: \<^verbatim>\<open>for output_type, output_data in node_output.items()\<close>.\<close>

fun download_kinds ::
  "env \<Rightarrow> string \<Rightarrow> string \<Rightarrow> (string \<times> json) list \<Rightarrow> dl_state \<Rightarrow> error option \<times> dl_state" where
  "download_kinds E server output_dir [] s = (None, s)"
| "download_kinds E server output_dir ((output_type, output_data) # rest) s =
     (if output_type = ''images'' then
        (case json_iter output_data of
           Inl e \<Rightarrow> (Some e, s)
         | Inr items \<Rightarrow>
             (case download_list E server output_dir items s of
                (Some e, s') \<Rightarrow> (Some e, s')
              | (None, s') \<Rightarrow> download_kinds E server output_dir rest s'))
      else download_kinds E server output_dir rest s)"

text \<open>Line 197: \<^verbatim>\<open>for node_id, node_output in outputs.items()\<close>.\<close>

fun download_nodes ::
  "env \<Rightarrow> string \<Rightarrow> string \<Rightarrow> (string \<times> json) list \<Rightarrow> dl_state \<Rightarrow> error option \<times> dl_state" where
  "download_nodes E server output_dir [] s = (None, s)"
| "download_nodes E server output_dir ((node_id, node_output) # rest) s =
     (case json_items node_output of
        Inl e \<Rightarrow> (Some e, s)
      | Inr kinds \<Rightarrow>
          (case download_kinds E server output_dir kinds s of
             (Some e, s') \<Rightarrow> (Some e, s')
           | (None, s') \<Rightarrow> download_nodes E server output_dir rest s'))"

text \<open>
  Line 186: \<^verbatim>\<open>not history or "outputs" not in history\<close>. The membership test is not
  evaluated when the history is false.
\<close>

definition no_outputs :: "json \<Rightarrow> error + bool" where
  "no_outputs history =
     (if \<not> truthy history then Inr True
      else (case json_in ''outputs'' history of Inl e \<Rightarrow> Inl e | Inr b \<Rightarrow> Inr (\<not> b)))"

text \<open>
  \<open>n\<close> is the number of the first GET request, the one \<open>get_history\<close> sends. The result is
  the list returned or the exception raised, and the state reached.
\<close>

definition download_images ::
  "env \<Rightarrow> nat \<Rightarrow> api \<Rightarrow> string \<Rightarrow> string \<Rightarrow> (error + string list) \<times> dl_state" where
  "download_images E n self prompt_id output_dir =
     (case get_history (http_get E) n self prompt_id of
        (Inl e, self', out) \<Rightarrow>
          (Inl e, \<lparr>client = self', reqs = Suc n, dirs = [], files = [], downloaded = [], dlog = out\<rparr>)
      | (Inr history, self', out) \<Rightarrow>
          (let s0 = \<lparr>client = self', reqs = Suc n, dirs = [], files = [], downloaded = [],
                     dlog = out\<rparr>
           in case no_outputs history of
                Inl e \<Rightarrow> (Inl e, s0)
              | Inr True \<Rightarrow> (Inr [], s0\<lparr>dlog := dlog s0 @ [WarnNoOutputs prompt_id]\<rparr>)
              | Inr False \<Rightarrow>
                  (case fs_makedirs E output_dir of
                     Some e \<Rightarrow> (Inl e, s0)
                   | None \<Rightarrow>
                       (let s1 = s0\<lparr>dirs := dirs s0 @ [output_dir]\<rparr>
                        in case json_get history ''outputs'' (JObj []) of
                             Inl e \<Rightarrow> (Inl e, s1)
                           | Inr outputs \<Rightarrow>
                               (case json_items outputs of
                                  Inl e \<Rightarrow> (Inl e, s1)
                                | Inr nodes \<Rightarrow>
                                    (case download_nodes E (server_address self) output_dir nodes s1 of
                                       (Some e, s2) \<Rightarrow> (Inl e, s2)
                                     | (None, s2) \<Rightarrow> (Inr (downloaded s2), s2)))))))"

subsection \<open>The outputs of a history record, as the specification describes them\<close>

text \<open>
  The data model: \<^verbatim>\<open>outputs\<close> maps a node identifier to a mapping from output kind to
  a sequence of file descriptors. \<open>wf_outputs\<close> says that the outputs have this shape
  (nothing is asked of a kind other than \<^verbatim>\<open>images\<close>, and a file name is a string,
  absent, or false). \<open>spec_descriptors\<close> lists the descriptors under the kind
  \<^verbatim>\<open>images\<close> in the order of the document, \<open>spec_filenames\<close> their file names that are
  not empty.
\<close>

definition wf_descriptor :: "json \<Rightarrow> bool" where
  "wf_descriptor d =
     (case d of
        JObj kvs \<Rightarrow>
          (case map_of kvs ''filename'' of
             None \<Rightarrow> True
           | Some v \<Rightarrow> (case v of JStr fn \<Rightarrow> True | _ \<Rightarrow> \<not> truthy v))
      | _ \<Rightarrow> False)"

definition wf_kind :: "string \<times> json \<Rightarrow> bool" where
  "wf_kind kind =
     (if fst kind = ''images''
      then (case snd kind of JArr items \<Rightarrow> list_all wf_descriptor items | _ \<Rightarrow> False)
      else True)"

definition wf_node :: "string \<times> json \<Rightarrow> bool" where
  "wf_node node = (case snd node of JObj kinds \<Rightarrow> list_all wf_kind kinds | _ \<Rightarrow> False)"

definition wf_outputs :: "(string \<times> json) list \<Rightarrow> bool" where
  "wf_outputs nodes = list_all wf_node nodes"

definition kind_descriptors :: "string \<times> json \<Rightarrow> json list" where
  "kind_descriptors kind =
     (if fst kind = ''images'' then (case snd kind of JArr items \<Rightarrow> items | _ \<Rightarrow> []) else [])"

definition node_descriptors :: "string \<times> json \<Rightarrow> json list" where
  "node_descriptors node =
     (case snd node of JObj kinds \<Rightarrow> concat (map kind_descriptors kinds) | _ \<Rightarrow> [])"

definition spec_descriptors :: "(string \<times> json) list \<Rightarrow> json list" where
  "spec_descriptors nodes = concat (map node_descriptors nodes)"

definition descriptor_filename :: "json \<Rightarrow> string list" where
  "descriptor_filename d =
     (case d of
        JObj kvs \<Rightarrow>
          (case map_of kvs ''filename'' of
             Some (JStr fn) \<Rightarrow> (if fn \<noteq> [] then [fn] else [])
           | _ \<Rightarrow> [])
      | _ \<Rightarrow> [])"

definition spec_filenames :: "json list \<Rightarrow> string list" where
  "spec_filenames ds = concat (map descriptor_filename ds)"

text \<open>
  One GET for each file name, in order, numbered from \<open>n\<close>: the file name with the
  response it receives.
\<close>

fun spec_attempts :: "env \<Rightarrow> string \<Rightarrow> nat \<Rightarrow> string list \<Rightarrow> (string \<times> response) list" where
  "spec_attempts E server n [] = []"
| "spec_attempts E server n (fn # fns) =
     (fn, http_get E n (view_url server fn)) # spec_attempts E server (Suc n) fns"

text \<open>The attempts answered with status 200, the line printed for an attempt.\<close>

definition answered :: "(string \<times> response) list \<Rightarrow> (string \<times> response) list" where
  "answered atts = filter (\<lambda>a. status_code (snd a) = 200) atts"

definition attempt_event :: "string \<Rightarrow> string \<times> response \<Rightarrow> event" where
  "attempt_event output_dir a =
     (if status_code (snd a) = 200 then ImageDownloaded (local_file output_dir (fst a))
      else ImageDownloadFailed (fst a) (status_code (snd a)))"

text \<open>The state after a list of attempts whose files could all be opened.\<close>

definition after_attempts :: "string \<Rightarrow> (string \<times> response) list \<Rightarrow> dl_state \<Rightarrow> dl_state" where
  "after_attempts output_dir atts s =
     s\<lparr>reqs := reqs s + length atts,
       files := files s @ map (\<lambda>a. (local_file output_dir (fst a), content (snd a))) (answered atts),
       downloaded := downloaded s @ map (\<lambda>a. local_file output_dir (fst a)) (answered atts),
       dlog := dlog s @ map (attempt_event output_dir) atts\<rparr>"

subsection \<open>Servers and documents for the examples\<close>

text \<open>
  \<open>gallery_doc\<close> is a history with one job, \<^verbatim>\<open>p42\<close>, whose outputs hold three images
  in two nodes and a kind that is not \<^verbatim>\<open>images\<close>. \<open>gallery_env\<close> answers the first
  request with the history and the third with status 404; \<open>created_env\<close> answers the
  first request with \<open>history_doc\<close> and every other with status 201.
\<close>

definition gallery_doc :: json where
  "gallery_doc =
     JObj [(''p42'', JObj [(''outputs'',
        JObj [(''9'', JObj [(''images'',
                 JArr [JObj [(''filename'', JStr ''img_0001_.png''), (''type'', JStr ''output'')],
                       JObj [(''filename'', JStr ''sub/img_0002_.png'')]]),
                (''text'', JArr [JStr ''done''])]),
              (''12'', JObj [(''images'',
                 JArr [JObj [(''filename'', JStr [])],
                       JObj [(''filename'', JStr ''img_0003_.png'')]])])])])]"

definition file_response :: "int \<Rightarrow> string \<Rightarrow> response" where
  "file_response code bytes =
     \<lparr>status_code = code, body_text = bytes, content = bytes, json_body = None\<rparr>"

definition gallery_env :: env where
  "gallery_env =
     \<lparr>http_get = (\<lambda>n url.
         if n = 0 then json_response 200 [] gallery_doc
         else if n = 2 then file_response 404 ''not found''
         else file_response 200 (''image '' @ url)),
      fs_makedirs = (\<lambda>p. None),
      fs_open = (\<lambda>p. None)\<rparr>"

definition created_env :: env where
  "created_env =
     \<lparr>http_get = (\<lambda>n url.
         if n = 0 then json_response 200 [] history_doc
         else file_response 201 ''image''),
      fs_makedirs = (\<lambda>p. None),
      fs_open = (\<lambda>p. None)\<rparr>"

section \<open>Properties of the workflow graph\<close>

lemma example_unshared: "unshared example_store 0 ''32'' 2"
  unfolding unshared_def example_store_def
  by (auto split: if_splits)

text \<open>
  Claim C6. When the graph contains node \<open>n\<close> and the inputs of \<open>n\<close> contain field \<open>f\<close>,
  \<open>update_node_input\<close> returns the graph it was given, and the graph is as before except
  that field \<open>f\<close> of the inputs of \<open>n\<close> is \<open>v\<close>: the input dictionary of \<open>n\<close> is the old one
  with \<open>f\<close> set to \<open>v\<close>, every other object of the store is as it was, and so are the
  entries of the graph, the record of \<open>n\<close>, and the record and the inputs of every other
  node. The graph is one that \<^verbatim>\<open>json.load\<close> built (\<open>unshared\<close>).
\<close>

theorem update_node_input_sets_field:
  assumes node: "objs h w n = Some (VRef a)"
    and inputs: "objs h a ''inputs'' = Some (VRef i)"
    and field: "objs h i f \<noteq> None"
    and tree: "unshared h w n i"
  shows "\<exists>h'. update_node_input h w n f v = (Inr w, h', [UpdatedInput n f])
     \<and> objs h' i = (objs h i)(f \<mapsto> v)
     \<and> (\<forall>b. b \<noteq> i \<longrightarrow> objs h' b = objs h b)
     \<and> next_addr h' = next_addr h
     \<and> objs h' w = objs h w
     \<and> node_record h' w n = node_record h w n
     \<and> node_inputs h' w n = Some ((objs h i)(f \<mapsto> v))
     \<and> (\<forall>m. m \<noteq> n \<longrightarrow>
           node_record h' w m = node_record h w m \<and> node_inputs h' w m = node_inputs h w m)"
proof -
  let ?h' = "h\<lparr>objs := (objs h)(i := (objs h i)(f \<mapsto> v))\<rparr>"
  have run: "update_node_input h w n f v = (Inr w, ?h', [UpdatedInput n f])"
    using node inputs field
    by (auto simp: update_node_input_def py_getitem_def py_in_def py_setitem_def)
  have w: "i \<noteq> w" and a: "a \<noteq> i"
    using tree node by (auto simp: unshared_def)
  have other: "node_record ?h' w m = node_record h w m \<and> node_inputs ?h' w m = node_inputs h w m"
    if "m \<noteq> n" for m
  proof (cases "objs h w m")
    case None
    then show ?thesis using w by (simp add: node_record_def node_inputs_def)
  next
    case (Some x)
    show ?thesis
    proof (cases x)
      case (VRef b)
      with Some tree that have "b \<noteq> i" and "objs h b ''inputs'' \<noteq> Some (VRef i)"
        by (auto simp: unshared_def)
      with Some VRef w show ?thesis
        by (auto simp: node_record_def node_inputs_def split: option.splits pyval.splits)
    qed (use Some w in \<open>simp_all add: node_record_def node_inputs_def\<close>)
  qed
  have "node_record ?h' w n = node_record h w n"
    using node w a by (simp add: node_record_def)
  moreover have "node_inputs ?h' w n = Some ((objs h i)(f \<mapsto> v))"
    using node inputs w a by (simp add: node_inputs_def)
  ultimately show ?thesis
    using run w other by (intro exI [of _ ?h']) simp
qed

theorem update_node_input_sets_field_witness:
  "fst (update_node_input example_store 0 ''32'' ''text'' (VStr ''new'')) = Inr 0
   \<and> node_input (fst (snd (update_node_input example_store 0 ''32'' ''text'' (VStr ''new''))))
        0 ''32'' ''text'' = Some (VStr ''new'')
   \<and> node_input (fst (snd (update_node_input example_store 0 ''32'' ''text'' (VStr ''new''))))
        0 ''32'' ''clip'' = Some (VList [VStr ''11'', VNum 0])
   \<and> node_input (fst (snd (update_node_input example_store 0 ''32'' ''text'' (VStr ''new''))))
        0 ''7'' ''seed'' = Some (VNum 5)"
proof -
  have n: "objs example_store 0 ''32'' = Some (VRef 1)"
    and i: "objs example_store 1 ''inputs'' = Some (VRef 2)"
    and f: "objs example_store 2 ''text'' \<noteq> None"
    by (simp_all add: example_store_def)
  from update_node_input_sets_field [OF n i f example_unshared, of "VStr ''new''"]
  obtain h' where run: "update_node_input example_store 0 ''32'' ''text'' (VStr ''new'')
        = (Inr 0, h', [UpdatedInput ''32'' ''text''])"
    and ins: "node_inputs h' 0 ''32'' = Some ((objs example_store 2)(''text'' \<mapsto> VStr ''new''))"
    and oth: "\<forall>m. m \<noteq> ''32'' \<longrightarrow> node_record h' 0 m = node_record example_store 0 m
          \<and> node_inputs h' 0 m = node_inputs example_store 0 m"
    by blast
  from oth have "node_inputs h' 0 ''7'' = node_inputs example_store 0 ''7''" by simp
  then show ?thesis
    using run ins by (simp add: node_input_def node_inputs_def example_store_def)
qed

text \<open>
  Claim C7. When node \<open>n\<close> is absent from the graph, or \<open>n\<close> is present and \<open>f\<close> is not among
  its inputs, \<open>update_node_input\<close> returns the graph it was given, writes nothing to the
  store, raises nothing, and prints one warning.
\<close>

theorem update_node_input_warns:
  assumes "objs h w n = None
     \<or> (\<exists>a i. objs h w n = Some (VRef a) \<and> objs h a ''inputs'' = Some (VRef i)
            \<and> objs h i f = None)"
  shows "update_node_input h w n f v =
     (Inr w, h, [if objs h w n = None then WarnMissingNode n else WarnMissingInput n f])"
  using assms
  by (auto simp: update_node_input_def py_getitem_def py_in_def)

theorem update_node_input_warns_witness:
  "update_node_input example_store 0 ''99'' ''text'' (VStr ''new'')
     = (Inr 0, example_store, [WarnMissingNode ''99''])
   \<and> update_node_input example_store 0 ''7'' ''text'' (VStr ''new'')
     = (Inr 0, example_store, [WarnMissingInput ''7'' ''text''])"
proof -
  have a: "objs example_store 0 ''99'' = None"
    by (simp add: example_store_def)
  have b: "objs example_store 0 ''7'' = Some (VRef 3) \<and> objs example_store 3 ''inputs'' = Some (VRef 4)
            \<and> objs example_store 4 ''text'' = None"
    by (simp add: example_store_def)
  have nb: "objs example_store 0 ''7'' \<noteq> None"
    by (simp add: example_store_def)
  show ?thesis
    using update_node_input_warns [of example_store 0 "''99''" "''text''" "VStr ''new''"]
      update_node_input_warns [of example_store 0 "''7''" "''text''" "VStr ''new''"] a b nb
    by (simp del: fun_upd_apply)
qed

text \<open>
  Claim C10, as stated, fails where the inputs of a node are a list: for the node
  \<^verbatim>\<open>"3": {"inputs": ["seed"]}\<close> and the field \<^verbatim>\<open>"text"\<close> the membership test of line 42 is
  false, so the call prints the warning and returns the graph unchanged.
\<close>

theorem update_node_input_list_inputs_counterexample:
  "objs malformed_store 0 ''3'' = Some (VRef 3)
   \<and> objs malformed_store 3 ''inputs'' = Some (VList [VStr ''seed''])
   \<and> update_node_input malformed_store 0 ''3'' ''text'' (VStr ''new'')
       = (Inr 0, malformed_store, [WarnMissingInput ''3'' ''text''])"
  by (simp add: malformed_store_def update_node_input_def py_getitem_def py_in_def)

text \<open>
  Claim C10, amended. For a node that is present: a record without the key
  \<^verbatim>\<open>"inputs"\<close> raises \<open>KeyError\<close>; inputs that are \<^verbatim>\<open>None\<close>, a boolean or a number raise
  \<open>TypeError\<close>; inputs that are a list or a string raise \<open>TypeError\<close> when they contain
  the field name (as an element, as a substring), and otherwise the call warns and
  returns the graph unchanged; a node that is not a dictionary raises \<open>TypeError\<close>.
  Nothing is written to the store in any of these cases.
\<close>

theorem update_node_input_malformed:
  "(objs h w n = Some (VRef a) \<and> objs h a ''inputs'' = None \<longrightarrow>
      update_node_input h w n f v = (Inl (KeyError ''inputs''), h, []))
   \<and> (objs h w n = Some (VRef a) \<and> objs h a ''inputs'' = Some x
        \<and> (x = VNone \<or> (\<exists>b. x = VBool b) \<or> (\<exists>k. x = VNum k)) \<longrightarrow>
      update_node_input h w n f v = (Inl TypeError, h, []))
   \<and> (objs h w n = Some (VRef a) \<and> objs h a ''inputs'' = Some (VList xs) \<longrightarrow>
      update_node_input h w n f v =
        (if VStr f \<in> set xs then (Inl TypeError, h, [])
         else (Inr w, h, [WarnMissingInput n f])))
   \<and> (objs h w n = Some (VRef a) \<and> objs h a ''inputs'' = Some (VStr t) \<longrightarrow>
      update_node_input h w n f v =
        (if is_substring f t then (Inl TypeError, h, [])
         else (Inr w, h, [WarnMissingInput n f])))
   \<and> (objs h w n = Some y \<and> (\<forall>b. y \<noteq> VRef b) \<longrightarrow>
      update_node_input h w n f v = (Inl TypeError, h, []))"
proof (intro conjI impI)
  assume "objs h w n = Some y \<and> (\<forall>b. y \<noteq> VRef b)"
  then show "update_node_input h w n f v = (Inl TypeError, h, [])"
    by (cases y) (simp_all add: update_node_input_def py_getitem_def)
qed (auto simp: update_node_input_def py_getitem_def py_in_def py_setitem_def)

theorem update_node_input_malformed_witness:
  "update_node_input malformed_store 0 ''1'' ''text'' (VStr ''new'')
     = (Inl (KeyError ''inputs''), malformed_store, [])
   \<and> update_node_input malformed_store 0 ''2'' ''text'' (VStr ''new'')
     = (Inl TypeError, malformed_store, [])
   \<and> update_node_input malformed_store 0 ''3'' ''text'' (VStr ''new'')
     = (Inr 0, malformed_store, [WarnMissingInput ''3'' ''text''])
   \<and> update_node_input malformed_store 0 ''3'' ''seed'' (VStr ''new'')
     = (Inl TypeError, malformed_store, [])
   \<and> update_node_input malformed_store 0 ''4'' ''text'' (VStr ''new'')
     = (Inl TypeError, malformed_store, [])
   \<and> update_node_input malformed_store 0 ''4'' ''seed'' (VStr ''new'')
     = (Inr 0, malformed_store, [WarnMissingInput ''4'' ''seed''])
   \<and> update_node_input malformed_store 0 ''5'' ''text'' (VStr ''new'')
     = (Inl TypeError, malformed_store, [])"
proof -
  have n1: "objs malformed_store 0 ''1'' = Some (VRef 1) \<and> objs malformed_store 1 ''inputs'' = None"
    and n2: "objs malformed_store 0 ''2'' = Some (VRef 2)
        \<and> objs malformed_store 2 ''inputs'' = Some (VNum 7)"
    and n3: "objs malformed_store 0 ''3'' = Some (VRef 3)
        \<and> objs malformed_store 3 ''inputs'' = Some (VList [VStr ''seed''])"
    and n4: "objs malformed_store 0 ''4'' = Some (VRef 4)
        \<and> objs malformed_store 4 ''inputs'' = Some (VStr ''context'')"
    and n5: "objs malformed_store 0 ''5'' = Some (VStr ''note'')"
    by (simp_all add: malformed_store_def)
  have s: "is_substring ''text'' ''context''" "\<not> is_substring ''seed'' ''context''"
    by simp_all
  note m = update_node_input_malformed [where h = malformed_store and w = 0 and v = "VStr ''new''"]
  have "update_node_input malformed_store 0 ''1'' ''text'' (VStr ''new'')
     = (Inl (KeyError ''inputs''), malformed_store, [])"
    using m [where n = "''1''" and a = 1] n1 by blast
  moreover have "update_node_input malformed_store 0 ''2'' ''text'' (VStr ''new'')
     = (Inl TypeError, malformed_store, [])"
    using m [where n = "''2''" and a = 2 and x = "VNum 7"] n2 by blast
  moreover have "update_node_input malformed_store 0 ''3'' ''text'' (VStr ''new'')
     = (Inr 0, malformed_store, [WarnMissingInput ''3'' ''text''])"
    using m [where n = "''3''" and a = 3 and xs = "[VStr ''seed'']" and f = "''text''"] n3 by simp
  moreover have "update_node_input malformed_store 0 ''3'' ''seed'' (VStr ''new'')
     = (Inl TypeError, malformed_store, [])"
    using m [where n = "''3''" and a = 3 and xs = "[VStr ''seed'']" and f = "''seed''"] n3 by simp
  moreover have "update_node_input malformed_store 0 ''4'' ''text'' (VStr ''new'')
     = (Inl TypeError, malformed_store, [])"
    using m [where n = "''4''" and a = 4 and f = "''text''" and t = "''context''"] n4 s by simp
  moreover have "update_node_input malformed_store 0 ''4'' ''seed'' (VStr ''new'')
     = (Inr 0, malformed_store, [WarnMissingInput ''4'' ''seed''])"
    using m [where n = "''4''" and a = 4 and f = "''seed''" and t = "''context''"] n4 s by simp
  moreover have "update_node_input malformed_store 0 ''5'' ''text'' (VStr ''new'')
     = (Inl TypeError, malformed_store, [])"
    using m [where n = "''5''" and y = "VStr ''note''"] n5 by simp
  ultimately show ?thesis by blast
qed

text \<open>
  Claim C1 does not hold of the code. \<^verbatim>\<open>workflow.copy()\<close> copies the entries of the graph
  only, so the copy and the base graph share every node record and every input
  dictionary, and the assignment of line 43 writes the shared one. On the graph of
  \<open>example_store\<close>, after the per-job copy and the update of the copy (at the new address
  5), the base graph at address 0 reads \<^verbatim>\<open>"new"\<close> where it read \<^verbatim>\<open>"old"\<close>.
\<close>

theorem job_workflow_changes_base_graph:
  "node_input example_store 0 ''32'' ''text'' = Some (VStr ''old'')
   \<and> fst (job_workflow example_store 0 ''32'' ''text'' (VStr ''new'')) = Inr 5
   \<and> node_input (fst (snd (job_workflow example_store 0 ''32'' ''text'' (VStr ''new''))))
        0 ''32'' ''text'' = Some (VStr ''new'')"
  by (simp add: job_workflow_def dict_copy_def update_node_input_def py_getitem_def py_in_def
      py_setitem_def node_input_def node_inputs_def example_store_def)

section \<open>Properties of \<^verbatim>\<open>run_workflow\<close>\<close>

text \<open>
  In the examples the text of a body plays no part when the status is 200 and is left
  empty.
\<close>

text \<open>
  Claim C2, as stated, fails for a response whose status is in the range 200 to 299
  and is not 200: line 71 compares the status with 200, so a response \<^verbatim>\<open>201\<close> is a
  \<open>SubmitError\<close> and no identifier is read.
\<close>

theorem run_workflow_created_counterexample:
  "(200 :: int) \<le> 201 \<and> (201 :: int) < 300
   \<and> run_workflow (fixed_server (json_response 201 ''[5]'' (JArr [JNum 5]))) local_api () None
       = (Inl (SubmitError 201 ''[5]''), [])"
  by (simp add: run_workflow_def post_prompt_def fixed_server_def json_response_def)

text \<open>
  Claim C2, amended. \<open>run_workflow\<close> fails with \<open>SubmitError\<close>, carrying the status code and
  the body, exactly when the status of the response to the POST is not 200; when the
  status is 200 it goes on to read the identifier from the response
  (\<open>read_prompt_id\<close>, lines 74 to 90).
\<close>

theorem run_workflow_submit_error:
  "(status_code (post_prompt post self workflow cid) \<noteq> 200 \<longrightarrow>
      run_workflow post self workflow cid
        = (Inl (SubmitError (status_code (post_prompt post self workflow cid))
                            (body_text (post_prompt post self workflow cid))), []))
   \<and> (status_code (post_prompt post self workflow cid) = 200 \<longrightarrow>
      run_workflow post self workflow cid = read_prompt_id (post_prompt post self workflow cid))
   \<and> ((\<exists>c b. fst (run_workflow post self workflow cid) = Inl (SubmitError c b))
      \<longleftrightarrow> status_code (post_prompt post self workflow cid) \<noteq> 200)"
proof -
  have no: "fst (read_prompt_id r) \<noteq> Inl (SubmitError c b)" for r c b
    by (auto simp: read_prompt_id_def find_prompt_id_def json_in_def json_getitem_def
        split: option.splits sum.splits json.splits list.splits bool.splits if_splits)
  show ?thesis
    using no [of "post_prompt post self workflow cid"] by (auto simp: run_workflow_def Let_def)
qed

theorem run_workflow_submit_error_witness:
  "run_workflow (fixed_server (json_response 503 ''busy'' JNull)) local_api () None
     = (Inl (SubmitError 503 ''busy''), [])
   \<and> run_workflow (fixed_server (json_response 200 ''[5]'' (JArr [JNum 5]))) local_api () None
     = (Inr (Repr (JNum 5)), [ResponseData (JArr [JNum 5]), WorkflowStarted (Repr (JNum 5))])"
proof -
  have p: "post_prompt (fixed_server r) local_api () None = r" for r
    by (simp add: post_prompt_def fixed_server_def)
  have a: "status_code (json_response 503 ''busy'' JNull) \<noteq> 200"
    and b: "status_code (json_response 200 ''[5]'' (JArr [JNum 5])) = 200"
    by (simp_all add: json_response_def)
  have r: "read_prompt_id (json_response 200 ''[5]'' (JArr [JNum 5]))
     = (Inr (Repr (JNum 5)), [ResponseData (JArr [JNum 5]), WorkflowStarted (Repr (JNum 5))])"
    by (simp add: read_prompt_id_def find_prompt_id_def json_in_def json_response_def py_str_def)
  show ?thesis
    using run_workflow_submit_error
      [where post = "fixed_server (json_response 503 ''busy'' JNull)" and self = local_api
        and workflow = "()" and cid = None]
      run_workflow_submit_error
      [where post = "fixed_server (json_response 200 ''[5]'' (JArr [JNum 5]))" and self = local_api
        and workflow = "()" and cid = None]
      a b r
    by (simp add: p) (simp add: json_response_def)
qed

text \<open>
  Claim C3, as stated, fails in two ways. Where an earlier field is present and empty,
  the later ones are not tried: for \<^verbatim>\<open>{"prompt_id": "", "id": "xyz"}\<close> the first non-empty
  candidate is \<^verbatim>\<open>"xyz"\<close>, and the chain of lines 79 to 84 stops at the field
  \<^verbatim>\<open>prompt_id\<close>, which is present, so the call fails with \<open>MissingIdentifier\<close>. And a
  body that yields no candidate does not always fail with \<open>MissingIdentifier\<close>: for
  the body \<^verbatim>\<open>5\<close> the test of line 79 raises \<^verbatim>\<open>TypeError\<close>.
\<close>

theorem find_prompt_id_empty_field_counterexample:
  "spec_identifier (JObj [(''prompt_id'', JStr []), (''id'', JStr ''xyz'')])
     = Inr (Val (JStr ''xyz''))
   \<and> run_workflow
         (fixed_server (json_response 200 [] (JObj [(''prompt_id'', JStr []), (''id'', JStr ''xyz'')])))
         local_api () None
       = (Inl (MissingIdentifier (JObj [(''prompt_id'', JStr []), (''id'', JStr ''xyz'')])),
          [ResponseData (JObj [(''prompt_id'', JStr []), (''id'', JStr ''xyz'')])])
   \<and> spec_identifier (JNum 5) = Inl (MissingIdentifier (JNum 5))
   \<and> run_workflow (fixed_server (json_response 200 [] (JNum 5))) local_api () None
       = (Inl TypeError, [ResponseData (JNum 5)])"
  by (simp add: spec_identifier_def spec_candidates_def run_workflow_def post_prompt_def fixed_server_def
      json_response_def read_prompt_id_def find_prompt_id_def json_in_def json_getitem_def)

text \<open>
  Claim C3, amended. On a response of status 200 with the JSON body \<open>r\<close>, the result of
  the call is decided by the first shape that is present, and later shapes are not
  tried. When \<open>r\<close> is an object: the value of its field \<^verbatim>\<open>prompt_id\<close> if it has one,
  otherwise the value of its field \<^verbatim>\<open>id\<close> if it has one; the call returns that value
  when it is not empty (in the sense of Python's truth value), fails with
  \<open>MissingIdentifier\<close> when it is empty, and fails with \<open>MissingIdentifier\<close> when the
  object has neither field. When \<open>r\<close> is a sequence with neither the string \<^verbatim>\<open>prompt_id\<close>
  nor the string \<^verbatim>\<open>id\<close> among its elements: its first element as a string, which is
  the element itself when that is a string and is not empty otherwise; the call
  returns it when it is not empty, and fails with \<open>MissingIdentifier\<close> when it is
  empty or the sequence is. When \<open>r\<close> is a string with neither \<^verbatim>\<open>prompt_id\<close> nor \<^verbatim>\<open>id\<close> as
  a substring, the call fails with \<open>MissingIdentifier\<close>. In every other case, a
  sequence with one of the two strings as an element, a string with one of them as a
  substring, a number, a boolean and \<^verbatim>\<open>null\<close>, the call raises \<^verbatim>\<open>TypeError\<close>. The four
  examples of the claim are in the witness.
\<close>

theorem run_workflow_identifier:
  assumes "status_code (post_prompt post self workflow cid) = 200"
    and "json_body (post_prompt post self workflow cid) = Some r"
  shows "fst (run_workflow post self workflow cid) =
     (case r of
        JObj kvs \<Rightarrow>
          (case map_of kvs ''prompt_id'' of
             Some v \<Rightarrow> if truthy v then Inr (Val v) else Inl (MissingIdentifier r)
           | None \<Rightarrow>
               (case map_of kvs ''id'' of
                  Some v \<Rightarrow> if truthy v then Inr (Val v) else Inl (MissingIdentifier r)
                | None \<Rightarrow> Inl (MissingIdentifier r)))
      | JArr xs \<Rightarrow>
          if JStr ''prompt_id'' \<in> set xs \<or> JStr ''id'' \<in> set xs then Inl TypeError
          else
            (case xs of
               [] \<Rightarrow> Inl (MissingIdentifier r)
             | x # ys \<Rightarrow>
                 (case x of
                    JStr s \<Rightarrow>
                      if s \<noteq> [] then Inr (Val (JStr s)) else Inl (MissingIdentifier r)
                  | _ \<Rightarrow> Inr (Repr x)))
      | JStr u \<Rightarrow>
          if is_substring ''prompt_id'' u \<or> is_substring ''id'' u then Inl TypeError
          else Inl (MissingIdentifier r)
      | _ \<Rightarrow> Inl TypeError)"
proof -
  have f: "fst (run_workflow post self workflow cid) =
      (case find_prompt_id r of
         Inl e \<Rightarrow> Inl e
       | Inr p \<Rightarrow> if truthy_id p then Inr p else Inl (MissingIdentifier r))"
    using assms
    by (simp add: run_workflow_def Let_def read_prompt_id_def split: sum.splits)
  have a: "find_prompt_id (JArr xs) =
      (if JStr ''prompt_id'' \<in> set xs \<or> JStr ''id'' \<in> set xs then Inl TypeError
       else (case xs of [] \<Rightarrow> Inr (Val (JStr [])) | x # ys \<Rightarrow> Inr (py_str x)))" for xs
  proof -
    have i: "json_in key (JArr ys) = Inr (JStr key \<in> set ys)" for key ys
      by (simp add: json_in_def)
    have g: "json_getitem (JArr ys) key = Inl TypeError" for key ys
      by (simp add: json_getitem_def)
    show ?thesis
    proof (cases "JStr ''prompt_id'' \<in> set xs")
      case True
      then show ?thesis
        by (simp add: find_prompt_id_def i g)
    next
      case False
      then show ?thesis
        by (cases "JStr ''id'' \<in> set xs"; cases xs)
          (simp_all add: find_prompt_id_def i g)
    qed
  qed
  have s: "find_prompt_id (JStr u) =
      (if is_substring ''prompt_id'' u \<or> is_substring ''id'' u then Inl TypeError
       else Inr (Val (JStr [])))" for u
  proof -
    have i: "json_in key (JStr u) = Inr (is_substring key u)" for key
      by (simp add: json_in_def)
    have g: "json_getitem (JStr u) key = Inl TypeError" for key
      by (simp add: json_getitem_def)
    show ?thesis
    proof (cases "is_substring ''prompt_id'' u")
      case True
      then show ?thesis
        by (simp add: find_prompt_id_def i g)
    next
      case False
      then show ?thesis
        by (cases "is_substring ''id'' u") (simp_all add: find_prompt_id_def i g)
    qed
  qed
  have o: "find_prompt_id (JObj kvs) =
      (case map_of kvs ''prompt_id'' of
         Some v \<Rightarrow> Inr (Val v)
       | None \<Rightarrow> (case map_of kvs ''id'' of Some v \<Rightarrow> Inr (Val v) | None \<Rightarrow> Inr (Val (JStr []))))"
    for kvs
    by (simp add: find_prompt_id_def json_in_def json_getitem_def split: option.splits)
  have n: "find_prompt_id JNull = Inl TypeError" "find_prompt_id (JBool b) = Inl TypeError"
    "find_prompt_id (JNum i) = Inl TypeError" for b i
    by (simp_all add: find_prompt_id_def json_in_def)
  show ?thesis
  proof (cases r)
    case (JObj kvs)
    then show ?thesis
      by (simp add: f o split: option.splits)
  next
    case (JArr xs)
    then show ?thesis
      by (simp add: f a py_str_def split: list.splits json.splits)
  next
    case (JStr u)
    then show ?thesis
      by (simp add: f s)
  qed (simp_all add: f n)
qed

theorem run_workflow_identifier_witness:
  "fst (run_workflow (fixed_server (json_response 200 [] (JObj [(''prompt_id'', JStr ''abc'')])))
          local_api () None) = Inr (Val (JStr ''abc''))
   \<and> fst (run_workflow (fixed_server (json_response 200 [] (JObj [(''id'', JStr ''xyz'')])))
          local_api () None) = Inr (Val (JStr ''xyz''))
   \<and> fst (run_workflow (fixed_server (json_response 200 [] (JArr [JStr ''q1''])))
          local_api () None) = Inr (Val (JStr ''q1''))
   \<and> fst (run_workflow (fixed_server (json_response 200 [] (JObj [])))
          local_api () None) = Inl (MissingIdentifier (JObj []))
   \<and> fst (run_workflow (fixed_server (json_response 200 [] (JArr [JNum 7, JStr ''q1''])))
          local_api () None) = Inr (Repr (JNum 7))
   \<and> fst (run_workflow (fixed_server (json_response 200 [] (JArr [JStr []])))
          local_api () None) = Inl (MissingIdentifier (JArr [JStr []]))
   \<and> fst (run_workflow
          (fixed_server (json_response 200 [] (JObj [(''id'', JStr ''xyz''), (''prompt_id'', JNum 0)])))
          local_api () None)
       = Inl (MissingIdentifier (JObj [(''id'', JStr ''xyz''), (''prompt_id'', JNum 0)]))
   \<and> fst (run_workflow (fixed_server (json_response 200 [] (JArr [JStr ''q1'', JStr ''id''])))
          local_api () None) = Inl TypeError
   \<and> fst (run_workflow (fixed_server (json_response 200 [] (JStr ''valid'')))
          local_api () None) = Inl TypeError
   \<and> fst (run_workflow (fixed_server (json_response 200 [] (JStr ''ok'')))
          local_api () None) = Inl (MissingIdentifier (JStr ''ok''))
   \<and> fst (run_workflow (fixed_server (json_response 200 [] JNull))
          local_api () None) = Inl TypeError"
proof -
  have ok: "status_code (post_prompt (fixed_server (json_response 200 [] d)) local_api () None) = 200"
    "json_body (post_prompt (fixed_server (json_response 200 [] d)) local_api () None) = Some d" for d
    by (simp_all add: post_prompt_def fixed_server_def json_response_def)
  note t = run_workflow_identifier [OF ok]
  have "fst (run_workflow (fixed_server (json_response 200 [] (JObj [(''prompt_id'', JStr ''abc'')])))
          local_api () None) = Inr (Val (JStr ''abc''))"
    using t [of "JObj [(''prompt_id'', JStr ''abc'')]"] by simp
  moreover have "fst (run_workflow (fixed_server (json_response 200 [] (JObj [(''id'', JStr ''xyz'')])))
          local_api () None) = Inr (Val (JStr ''xyz''))"
    using t [of "JObj [(''id'', JStr ''xyz'')]"] by simp
  moreover have "fst (run_workflow (fixed_server (json_response 200 [] (JArr [JStr ''q1''])))
          local_api () None) = Inr (Val (JStr ''q1''))"
    using t [of "JArr [JStr ''q1'']"] by simp
  moreover have "fst (run_workflow (fixed_server (json_response 200 [] (JObj [])))
          local_api () None) = Inl (MissingIdentifier (JObj []))"
    using t [of "JObj []"] by simp
  moreover have "fst (run_workflow (fixed_server (json_response 200 [] (JArr [JNum 7, JStr ''q1''])))
          local_api () None) = Inr (Repr (JNum 7))"
    using t [of "JArr [JNum 7, JStr ''q1'']"] by simp
  moreover have "fst (run_workflow (fixed_server (json_response 200 [] (JArr [JStr []])))
          local_api () None) = Inl (MissingIdentifier (JArr [JStr []]))"
    using t [of "JArr [JStr []]"] by simp
  moreover have "fst (run_workflow
          (fixed_server (json_response 200 [] (JObj [(''id'', JStr ''xyz''), (''prompt_id'', JNum 0)])))
          local_api () None)
       = Inl (MissingIdentifier (JObj [(''id'', JStr ''xyz''), (''prompt_id'', JNum 0)]))"
    using t [of "JObj [(''id'', JStr ''xyz''), (''prompt_id'', JNum 0)]"] by simp
  moreover have "fst (run_workflow (fixed_server (json_response 200 [] (JArr [JStr ''q1'', JStr ''id''])))
          local_api () None) = Inl TypeError"
    using t [of "JArr [JStr ''q1'', JStr ''id'']"] by simp
  moreover have "fst (run_workflow (fixed_server (json_response 200 [] (JStr ''valid'')))
          local_api () None) = Inl TypeError"
    using t [of "JStr ''valid''"] by simp
  moreover have "fst (run_workflow (fixed_server (json_response 200 [] (JStr ''ok'')))
          local_api () None) = Inl (MissingIdentifier (JStr ''ok''))"
    using t [of "JStr ''ok''"] by simp
  moreover have "fst (run_workflow (fixed_server (json_response 200 [] JNull))
          local_api () None) = Inl TypeError"
    using t [of JNull] by simp
  ultimately show ?thesis by blast
qed

section \<open>Properties of \<^verbatim>\<open>wait_for_completion\<close>\<close>

text \<open>The lengths \<^verbatim>\<open>time.sleep\<close> accepts.\<close>

lemma py_sleep_finite:
  assumes "0 \<le> t" and "t * 10 ^ 9 < 2 ^ 63"
  shows "py_sleep (Finite t) = None"
proof -
  from assms(1) have "0 \<le> t * 10 ^ 9"
    by simp
  then have "\<not> t * 10 ^ 9 < - (2 ^ 63)"
    by (smt (verit) zero_less_power)
  with assms show ?thesis
    by (simp add: py_sleep_def)
qed

lemma py_sleep_accepts:
  "py_sleep iv = None \<longleftrightarrow> (\<exists>t. iv = Finite t \<and> 0 \<le> t \<and> t * 10 ^ 9 < 2 ^ 63)"
proof
  assume "py_sleep iv = None"
  then show "\<exists>t. iv = Finite t \<and> 0 \<le> t \<and> t * 10 ^ 9 < 2 ^ 63"
    by (cases iv) (auto simp: py_sleep_def split: if_splits)
next
  assume "\<exists>t. iv = Finite t \<and> 0 \<le> t \<and> t * 10 ^ 9 < 2 ^ 63"
  then show "py_sleep iv = None"
    using py_sleep_finite by auto
qed

text \<open>One pass of the loop: retried, not retried, and retried with a sleep that raises.\<close>

lemma wait_loop_step:
  assumes "retries (poll (queue_response get self (polls s)) pid)" and "py_sleep iv = None"
  shows "wait_loop get self pid iv s =
     wait_loop get self pid iv
       (s\<lparr>polls := Suc (polls s),
          slept := slept s @ [iv],
          wlog := wlog s @ pass_log (poll (queue_response get self (polls s)) pid)\<rparr>)"
  using assms
  by (subst wait_loop.simps)
    (auto simp: retries_def pass_log_def split: outcome.splits)

lemma wait_loop_stop:
  assumes "\<not> retries (poll (queue_response get self (polls s)) pid)"
  shows "wait_loop get self pid iv s =
     Some (pass_result (poll (queue_response get self (polls s)) pid),
           s\<lparr>polls := Suc (polls s),
             wlog := wlog s @ pass_log (poll (queue_response get self (polls s)) pid)\<rparr>)"
  using assms
  by (subst wait_loop.simps)
    (auto simp: retries_def pass_log_def pass_result_def split: outcome.splits)

lemma wait_loop_raises:
  assumes "retries (poll (queue_response get self (polls s)) pid)" and "py_sleep iv = Some e"
  shows "wait_loop get self pid iv s =
     Some (Inl e,
           s\<lparr>polls := Suc (polls s),
             wlog := wlog s @ pass_log (poll (queue_response get self (polls s)) pid)\<rparr>)"
  using assms
  by (subst wait_loop.simps)
    (auto simp: retries_def pass_log_def split: outcome.splits)

text \<open>
  A call with a length that \<^verbatim>\<open>time.sleep\<close> refuses ends on its first poll: with the
  exception of the sleep when the poll is retried.
\<close>

lemma wait_sleep_raises:
  assumes "py_sleep iv = Some e"
  shows "wait_for_completion get self pid iv =
     Some (if retries (poll (queue_response get self 0) pid) then Inl e
           else pass_result (poll (queue_response get self 0) pid),
           \<lparr>polls = 1, slept = [],
            wlog = Waiting # pass_log (poll (queue_response get self 0) pid)\<rparr>)"
proof (cases "retries (poll (queue_response get self 0) pid)")
  case True
  then have "retries (poll (queue_response get self
      (polls \<lparr>polls = 0, slept = [], wlog = [Waiting]\<rparr>)) pid)"
    by simp
  from wait_loop_raises [OF this assms] True show ?thesis
    by (simp add: wait_for_completion_def)
next
  case False
  then have "\<not> retries (poll (queue_response get self
      (polls \<lparr>polls = 0, slept = [], wlog = [Waiting]\<rparr>)) pid)"
    by simp
  from wait_loop_stop [OF this, of iv] False show ?thesis
    by (simp add: wait_for_completion_def)
qed

text \<open>\<open>k\<close> passes that are retried.\<close>

lemma wait_loop_steps:
  assumes "\<forall>j<k. retries (poll (queue_response get self (polls s + j)) pid)"
    and "py_sleep iv = None"
  shows "wait_loop get self pid iv s =
     wait_loop get self pid iv
       (s\<lparr>polls := polls s + k,
          slept := slept s @ replicate k iv,
          wlog := wlog s
            @ concat (map (\<lambda>j. pass_log (poll (queue_response get self (polls s + j)) pid))
                [0..<k])\<rparr>)"
  using assms(1)
proof (induction k)
  case 0
  show ?case by simp
next
  case (Suc k)
  let ?sk = "s\<lparr>polls := polls s + k,
          slept := slept s @ replicate k iv,
          wlog := wlog s
            @ concat (map (\<lambda>j. pass_log (poll (queue_response get self (polls s + j)) pid))
                [0..<k])\<rparr>"
  from Suc.prems have "\<forall>j<k. retries (poll (queue_response get self (polls s + j)) pid)"
    by simp
  then have "wait_loop get self pid iv s = wait_loop get self pid iv ?sk"
    by (rule Suc.IH)
  also from Suc.prems have "retries (poll (queue_response get self (polls ?sk)) pid)"
    by simp
  then have "wait_loop get self pid iv ?sk =
     wait_loop get self pid iv
       (?sk\<lparr>polls := Suc (polls ?sk),
          slept := slept ?sk @ [iv],
          wlog := wlog ?sk @ pass_log (poll (queue_response get self (polls ?sk)) pid)\<rparr>)"
    using assms(2) by (rule wait_loop_step)
  finally show ?case
    by (simp add: replicate_append_same)
qed

text \<open>
  The result of the call when poll \<open>k\<close> is the first that is not retried: the loop
  sleeps once for each earlier poll and prints the lines of every pass.
\<close>

lemma wait_result:
  assumes "\<forall>j<k. retries (poll (queue_response get self j) pid)"
    and "\<not> retries (poll (queue_response get self k) pid)"
    and "py_sleep iv = None"
  shows "wait_for_completion get self pid iv =
     Some (pass_result (poll (queue_response get self k) pid),
           \<lparr>polls = Suc k, slept = replicate k iv,
            wlog = run_log get self pid k @ pass_log (poll (queue_response get self k) pid)\<rparr>)"
proof -
  let ?s0 = "\<lparr>polls = 0, slept = [], wlog = [Waiting]\<rparr>"
  from assms(1) have "\<forall>j<k. retries (poll (queue_response get self (polls ?s0 + j)) pid)"
    by simp
  from wait_loop_steps [OF this assms(3)]
  have "wait_loop get self pid iv ?s0 =
     wait_loop get self pid iv
       \<lparr>polls = k, slept = replicate k iv, wlog = run_log get self pid k\<rparr>"
    by (simp add: run_log_def)
  also have "\<dots> = Some (pass_result (poll (queue_response get self k) pid),
           \<lparr>polls = Suc k, slept = replicate k iv,
            wlog = run_log get self pid k @ pass_log (poll (queue_response get self k) pid)\<rparr>)"
    using assms(2) by (subst wait_loop_stop) simp_all
  finally show ?thesis
    by (simp add: wait_for_completion_def)
qed

text \<open>
  A call that returns has reached a poll that is not retried. The proof is by the
  induction rule of the partial function.
\<close>

lemma wait_loop_sound:
  assumes "wait_loop get self pid iv s = Some y" and "py_sleep iv = None"
  shows "\<exists>k. \<not> retries (poll (queue_response get self (polls s + k)) pid)"
proof -
  define P :: "(nat \<Rightarrow> string \<Rightarrow> response) \<Rightarrow> api \<Rightarrow> string \<Rightarrow> py_float \<Rightarrow> wait_state
      \<Rightarrow> (error + bool) \<times> wait_state \<Rightarrow> bool"
    where "P = (\<lambda>get self pid iv s y.
      py_sleep iv = None
        \<longrightarrow> (\<exists>k. \<not> retries (poll (queue_response get self (polls s + k)) pid)))"
  have "P get self pid iv s y"
  proof (rule wait_loop.raw_induct [where P = P, OF _ assms(1)])
    fix loop :: "(nat \<Rightarrow> string \<Rightarrow> response) \<Rightarrow> api \<Rightarrow> string \<Rightarrow> py_float \<Rightarrow> wait_state
      \<Rightarrow> ((error + bool) \<times> wait_state) option"
    fix get self pid iv s y
    assume ih: "\<And>get self pid iv s y. loop get self pid iv s = Some y \<Longrightarrow> P get self pid iv s y"
    assume body: "(case poll (queue_response get self (polls s)) pid of
        Failed code \<Rightarrow>
          (case py_sleep iv of
             Some e \<Rightarrow>
               Some (Inl e,
                     s\<lparr>polls := Suc (polls s), wlog := wlog s @ [QueueCheckFailed code]\<rparr>)
           | None \<Rightarrow>
               loop get self pid iv
                 (s\<lparr>polls := Suc (polls s),
                    slept := slept s @ [iv],
                    wlog := wlog s @ [QueueCheckFailed code]\<rparr>))
      | Raised e \<Rightarrow> Some (Inl e, s\<lparr>polls := Suc (polls s)\<rparr>)
      | Busy running pending \<Rightarrow>
          (case py_sleep iv of
             Some e \<Rightarrow>
               Some (Inl e,
                     s\<lparr>polls := Suc (polls s),
                       wlog := wlog s @ [RunningJobs running, PendingJobs pending]\<rparr>)
           | None \<Rightarrow>
               loop get self pid iv
                 (s\<lparr>polls := Suc (polls s),
                    slept := slept s @ [iv],
                    wlog := wlog s @ [RunningJobs running, PendingJobs pending]\<rparr>))
      | Done running pending \<Rightarrow>
          Some (Inr True,
                s\<lparr>polls := Suc (polls s),
                  wlog := wlog s @ [RunningJobs running, PendingJobs pending, WorkflowCompleted]\<rparr>))
      = Some y"
    show "P get self pid iv s y"
      unfolding P_def
    proof
      assume iv: "py_sleep iv = None"
      show "\<exists>k. \<not> retries (poll (queue_response get self (polls s + k)) pid)"
      proof (cases "retries (poll (queue_response get self (polls s)) pid)")
        case False
        then show ?thesis by (intro exI [of _ 0]) simp
      next
        case True
        with body iv obtain s1 where "loop get self pid iv s1 = Some y"
          and "polls s1 = Suc (polls s)"
          by (auto simp: retries_def split: outcome.splits)
        with ih [of get self pid iv s1 y] iv obtain k
          where "\<not> retries (poll (queue_response get self (Suc (polls s) + k)) pid)"
          by (auto simp: P_def)
        then show ?thesis by (intro exI [of _ "Suc k"]) simp
      qed
    qed
  qed
  with assms(2) show ?thesis by (simp add: P_def)
qed

lemma wait_forever:
  assumes "\<forall>j. retries (poll (queue_response get self j) pid)" and "py_sleep iv = None"
  shows "wait_for_completion get self pid iv = None"
proof (cases "wait_for_completion get self pid iv")
  case (Some y)
  then have "wait_loop get self pid iv \<lparr>polls = 0, slept = [], wlog = [Waiting]\<rparr> = Some y"
    by (simp add: wait_for_completion_def)
  from wait_loop_sound [OF this assms(2)] assms(1) show ?thesis by simp
qed

text \<open>The first poll that is not retried, when there is one.\<close>

lemma first_stop:
  assumes "\<not> retries (poll (queue_response get self k) pid)"
  obtains m where "m \<le> k" "\<not> retries (poll (queue_response get self m) pid)"
    "\<forall>j<m. retries (poll (queue_response get self j) pid)"
proof -
  define m where "m = (LEAST i. \<not> retries (poll (queue_response get self i) pid))"
  have "m \<le> k"
    unfolding m_def using assms by (rule Least_le)
  moreover have "\<not> retries (poll (queue_response get self m) pid)"
    unfolding m_def using assms by (rule LeastI)
  moreover have "\<forall>j<m. retries (poll (queue_response get self j) pid)"
    unfolding m_def using not_less_Least by blast
  ultimately show ?thesis by (rule that)
qed

text \<open>How a pass reads the response.\<close>

lemma poll_failed: "status_code r \<noteq> 200 \<Longrightarrow> poll r pid = Failed (status_code r)"
  by (simp add: poll_def)

lemma poll_not_json:
  "status_code r = 200 \<Longrightarrow> json_body r = None \<Longrightarrow> poll r pid = Raised JSONDecodeError"
  by (simp add: poll_def)

lemma poll_object:
  assumes "status_code r = 200" and "json_body r = Some (JObj kvs)"
  shows "poll r pid =
     (if spec_complete pid (spec_queue kvs ''queue_running'') (spec_queue kvs ''queue_pending'')
      then Done (spec_queue kvs ''queue_running'') (spec_queue kvs ''queue_pending'')
      else Busy (spec_queue kvs ''queue_running'') (spec_queue kvs ''queue_pending''))"
proof -
  have q: "queue_ids (JObj kvs) key = Inr (spec_queue kvs key)" for key
    by (auto simp: queue_ids_def json_in_def json_getitem_def spec_queue_def
        split: option.splits json.splits)
  from assms show ?thesis
    by (simp add: poll_def q spec_complete_def)
qed

lemma poll_body:
  assumes "status_code r = 200" and "json_body r = Some d"
  shows "poll r pid =
     (case d of
        JObj kvs \<Rightarrow>
          if spec_complete pid (spec_queue kvs ''queue_running'')
               (spec_queue kvs ''queue_pending'')
          then Done (spec_queue kvs ''queue_running'') (spec_queue kvs ''queue_pending'')
          else Busy (spec_queue kvs ''queue_running'') (spec_queue kvs ''queue_pending'')
      | JArr xs \<Rightarrow>
          if JStr ''queue_running'' \<in> set xs \<or> JStr ''queue_pending'' \<in> set xs
          then Raised TypeError else Done [] []
      | JStr t \<Rightarrow>
          if is_substring ''queue_running'' t \<or> is_substring ''queue_pending'' t
          then Raised TypeError else Done [] []
      | _ \<Rightarrow> Raised TypeError)"
proof -
  have s: "queue_ids (JStr u) key = (if is_substring key u then Inl TypeError else Inr [])"
    and a: "queue_ids (JArr xs) key = (if JStr key \<in> set xs then Inl TypeError else Inr [])"
    and n: "queue_ids JNull key = Inl TypeError" "queue_ids (JBool b) key = Inl TypeError"
      "queue_ids (JNum i) key = Inl TypeError"
    for u xs b i key
    by (simp_all add: queue_ids_def json_in_def json_getitem_def)
  show ?thesis
  proof (cases d)
    case (JObj kvs)
    with assms poll_object [of r kvs pid] show ?thesis by simp
  qed (use assms in \<open>simp_all add: poll_def s a n\<close>)
qed

text \<open>
  Claim C4, as stated, fails in two ways. A poll on which the condition does not hold
  is not always followed by a sleep and another poll: a reply of status 200 whose
  document is \<^verbatim>\<open>null\<close> ends the call with \<^verbatim>\<open>TypeError\<close> on the first poll. And with the
  interval \<open>-1\<close>, against the queue of the claim's own example, the sleep after the
  first poll raises \<^verbatim>\<open>ValueError\<close>: there is no second poll and no success.
\<close>

theorem wait_for_completion_unreadable_counterexample:
  "\<not> is_done (poll (queue_response null_reply local_api 0) ''job1'')
   \<and> wait_for_completion null_reply local_api ''job1'' (Finite (1 / 100))
       = Some (Inl TypeError, \<lparr>polls = 1, slept = [], wlog = [Waiting]\<rparr>)
   \<and> \<not> is_done (poll (queue_response two_polls local_api 0) ''job1'')
   \<and> wait_for_completion two_polls local_api ''job1'' (Finite (- 1))
       = Some (Inl ValueError,
           \<lparr>polls = 1, slept = [],
            wlog = [Waiting, RunningJobs [JStr ''job1''], PendingJobs []]\<rparr>)"
proof -
  have n: "poll (queue_response null_reply local_api 0) ''job1'' = Raised TypeError"
    by (simp add: poll_def queue_response_def null_reply_def json_response_def queue_ids_def
        json_in_def)
  have t: "poll (queue_response two_polls local_api 0) ''job1'' = Busy [JStr ''job1''] []"
    by (simp add: poll_def queue_response_def two_polls_def json_response_def queue_doc_def
        queue_ids_def json_in_def json_getitem_def)
  have "wait_for_completion null_reply local_api ''job1'' (Finite (1 / 100))
       = Some (Inl TypeError, \<lparr>polls = 1, slept = [], wlog = [Waiting]\<rparr>)"
    unfolding wait_for_completion_def
    by (subst wait_loop.simps) (simp add: n)
  moreover have "wait_for_completion two_polls local_api ''job1'' (Finite (- 1))
       = Some (Inl ValueError,
           \<lparr>polls = 1, slept = [],
            wlog = [Waiting, RunningJobs [JStr ''job1''], PendingJobs []]\<rparr>)"
    unfolding wait_for_completion_def
    by (subst wait_loop.simps) (simp add: t py_sleep_def)
  ultimately show ?thesis by (simp add: n t)
qed

text \<open>
  Claim C4, amended. Let the interval be a number of seconds \<open>t\<close> that \<^verbatim>\<open>time.sleep\<close>
  accepts: not negative, and less than \<open>2 ^ 63\<close> nanoseconds. A poll is \<^emph>\<open>retried\<close> (the
  call sleeps for the interval and polls again) when the reply has a status other
  than 200, or has status 200 and parsed lists for which the condition fails. The
  call returns success exactly when some poll \<open>k\<close> meets the condition and every poll
  before it was retried; it has then sent \<open>k + 1\<close> polls and slept \<open>k\<close> times, each time
  for the interval. When the first poll that is not retried raises, the call ends with
  that exception, and when every poll is retried the call never returns. The last
  four parts say how a poll reads a reply. A status other than 200 is a failed check.
  A reply of status 200 that is not JSON raises \<^verbatim>\<open>JSONDecodeError\<close>. For a reply of
  status 200 that is an object, the running and pending lists are the identifiers of
  the entries under \<^verbatim>\<open>queue_running\<close> and \<^verbatim>\<open>queue_pending\<close>, and the poll meets the
  condition when the identifier awaited is in neither list and the running list is
  empty. A sequence or a string of status 200 raises \<^verbatim>\<open>TypeError\<close> when it has one of
  the two keys as an element (as a substring, for a string) and otherwise gives two
  empty lists, which meet the condition; \<^verbatim>\<open>null\<close>, a boolean and a number raise
  \<^verbatim>\<open>TypeError\<close>. The example of the claim, success after exactly 2 polls and one sleep,
  is in the witness.
\<close>

theorem wait_for_completion_returns:
  assumes "0 \<le> t" and "t * 10 ^ 9 < 2 ^ 63"
  shows "((\<exists>s. wait_for_completion get self pid (Finite t) = Some (Inr True, s))
       \<longleftrightarrow> (\<exists>k. is_done (poll (queue_response get self k) pid)
                \<and> (\<forall>j<k. retries (poll (queue_response get self j) pid))))
   \<and> (\<forall>k r p. poll (queue_response get self k) pid = Done r p
            \<and> (\<forall>j<k. retries (poll (queue_response get self j) pid))
         \<longrightarrow> wait_for_completion get self pid (Finite t)
             = Some (Inr True,
                 \<lparr>polls = Suc k, slept = replicate k (Finite t),
                  wlog = run_log get self pid k
                         @ [RunningJobs r, PendingJobs p, WorkflowCompleted]\<rparr>))
   \<and> (\<forall>k e. poll (queue_response get self k) pid = Raised e
            \<and> (\<forall>j<k. retries (poll (queue_response get self j) pid))
         \<longrightarrow> wait_for_completion get self pid (Finite t)
             = Some (Inl e,
                 \<lparr>polls = Suc k, slept = replicate k (Finite t),
                  wlog = run_log get self pid k\<rparr>))
   \<and> ((\<forall>j. retries (poll (queue_response get self j) pid))
         \<longrightarrow> wait_for_completion get self pid (Finite t) = None)
   \<and> (\<forall>out. retries out \<longleftrightarrow> (\<exists>code. out = Failed code) \<or> (\<exists>r p. out = Busy r p))
   \<and> (\<forall>r :: response. status_code r \<noteq> 200 \<longrightarrow> poll r pid = Failed (status_code r))
   \<and> (\<forall>r :: response. status_code r = 200 \<and> json_body r = None \<longrightarrow>
          poll r pid = Raised JSONDecodeError)
   \<and> (\<forall>(r :: response) d. status_code r = 200 \<and> json_body r = Some d \<longrightarrow>
          poll r pid =
            (case d of
               JObj kvs \<Rightarrow>
                 if JStr pid \<notin> set (spec_queue kvs ''queue_running'')
                    \<and> JStr pid \<notin> set (spec_queue kvs ''queue_pending'')
                    \<and> spec_queue kvs ''queue_running'' = []
                 then Done (spec_queue kvs ''queue_running'') (spec_queue kvs ''queue_pending'')
                 else Busy (spec_queue kvs ''queue_running'') (spec_queue kvs ''queue_pending'')
             | JArr xs \<Rightarrow>
                 if JStr ''queue_running'' \<in> set xs \<or> JStr ''queue_pending'' \<in> set xs
                 then Raised TypeError else Done [] []
             | JStr u \<Rightarrow>
                 if is_substring ''queue_running'' u \<or> is_substring ''queue_pending'' u
                 then Raised TypeError else Done [] []
             | _ \<Rightarrow> Raised TypeError))"
proof -
  let ?iv = "Finite t"
  from assms have iv: "py_sleep ?iv = None"
    by (rule py_sleep_finite)
  have iff: "(\<exists>s. wait_for_completion get self pid ?iv = Some (Inr True, s))
       \<longleftrightarrow> (\<exists>k. is_done (poll (queue_response get self k) pid)
                \<and> (\<forall>j<k. retries (poll (queue_response get self j) pid)))"
  proof
    assume "\<exists>s. wait_for_completion get self pid ?iv = Some (Inr True, s)"
    then obtain s where s: "wait_for_completion get self pid ?iv = Some (Inr True, s)"
      by blast
    then have "wait_loop get self pid ?iv \<lparr>polls = 0, slept = [], wlog = [Waiting]\<rparr>
        = Some (Inr True, s)"
      by (simp add: wait_for_completion_def)
    from wait_loop_sound [OF this iv] obtain k
      where "\<not> retries (poll (queue_response get self k) pid)"
      by auto
    then obtain m where m: "\<not> retries (poll (queue_response get self m) pid)"
      "\<forall>j<m. retries (poll (queue_response get self j) pid)"
      by (rule first_stop)
    from wait_result [OF m(2) m(1) iv] s
    have "pass_result (poll (queue_response get self m) pid) = Inr True"
      by simp
    with m(1) have "is_done (poll (queue_response get self m) pid)"
      by (cases "poll (queue_response get self m) pid") (simp_all add: pass_result_def retries_def)
    with m(2) show "\<exists>k. is_done (poll (queue_response get self k) pid)
                \<and> (\<forall>j<k. retries (poll (queue_response get self j) pid))"
      by blast
  next
    assume "\<exists>k. is_done (poll (queue_response get self k) pid)
                \<and> (\<forall>j<k. retries (poll (queue_response get self j) pid))"
    then obtain k where k: "is_done (poll (queue_response get self k) pid)"
      "\<forall>j<k. retries (poll (queue_response get self j) pid)"
      by blast
    from k(1) have "\<not> retries (poll (queue_response get self k) pid)"
      "pass_result (poll (queue_response get self k) pid) = Inr True"
      by (cases "poll (queue_response get self k) pid"; simp add: retries_def pass_result_def)+
    with wait_result [OF k(2) this(1) iv]
    show "\<exists>s. wait_for_completion get self pid ?iv = Some (Inr True, s)"
      by simp
  qed
  have finished: "wait_for_completion get self pid ?iv
             = Some (Inr True,
                 \<lparr>polls = Suc k, slept = replicate k ?iv,
                  wlog = run_log get self pid k
                         @ [RunningJobs r, PendingJobs p, WorkflowCompleted]\<rparr>)"
    if "poll (queue_response get self k) pid = Done r p"
      and "\<forall>j<k. retries (poll (queue_response get self j) pid)" for k r p
    using wait_result [OF that(2) _ iv] that(1)
    by (simp add: retries_def pass_result_def pass_log_def)
  have raised: "wait_for_completion get self pid ?iv
             = Some (Inl e,
                 \<lparr>polls = Suc k, slept = replicate k ?iv, wlog = run_log get self pid k\<rparr>)"
    if "poll (queue_response get self k) pid = Raised e"
      and "\<forall>j<k. retries (poll (queue_response get self j) pid)" for k e
    using wait_result [OF that(2) _ iv] that(1)
    by (simp add: retries_def pass_result_def pass_log_def)
  have forever: "wait_for_completion get self pid ?iv = None"
    if "\<forall>j. retries (poll (queue_response get self j) pid)"
    using that iv by (rule wait_forever)
  have retried: "retries out \<longleftrightarrow> (\<exists>code. out = Failed code) \<or> (\<exists>r p. out = Busy r p)" for out
    by (cases out) (simp_all add: retries_def)
  have body: "poll r pid =
            (case d of
               JObj kvs \<Rightarrow>
                 if JStr pid \<notin> set (spec_queue kvs ''queue_running'')
                    \<and> JStr pid \<notin> set (spec_queue kvs ''queue_pending'')
                    \<and> spec_queue kvs ''queue_running'' = []
                 then Done (spec_queue kvs ''queue_running'') (spec_queue kvs ''queue_pending'')
                 else Busy (spec_queue kvs ''queue_running'') (spec_queue kvs ''queue_pending'')
             | JArr xs \<Rightarrow>
                 if JStr ''queue_running'' \<in> set xs \<or> JStr ''queue_pending'' \<in> set xs
                 then Raised TypeError else Done [] []
             | JStr u \<Rightarrow>
                 if is_substring ''queue_running'' u \<or> is_substring ''queue_pending'' u
                 then Raised TypeError else Done [] []
             | _ \<Rightarrow> Raised TypeError)"
    if "status_code r = 200" and "json_body r = Some d" for r :: response and d
    using poll_body [OF that, of pid] by (simp add: spec_complete_def split: json.splits)
  from iff finished raised forever show ?thesis
    using retried poll_failed [where pid = pid] poll_not_json [where pid = pid] body
    by (intro conjI) blast+
qed

lemma poll_two_polls:
  "poll (queue_response two_polls local_api 0) ''job1'' = Busy [JStr ''job1''] []"
  "poll (queue_response two_polls local_api (Suc 0)) ''job1'' = Done [] []"
  by (simp_all add: poll_def queue_response_def two_polls_def json_response_def queue_doc_def
      queue_ids_def json_in_def json_getitem_def)

lemma poll_busy_queue:
  "poll (queue_response busy_queue local_api 0) ''job1'' = Busy [] [JStr ''job1'']"
  "poll (queue_response busy_queue local_api (Suc 0)) ''job1'' = Failed 503"
  "poll (queue_response busy_queue local_api (Suc (Suc 0))) ''job1'' = Busy [JStr ''job1''] []"
  "poll (queue_response busy_queue local_api (Suc (Suc (Suc 0)))) ''job1''
     = Busy [JStr ''job2''] []"
  "poll (queue_response busy_queue local_api (Suc (Suc (Suc (Suc 0))))) ''job1'' = Done [] []"
  by (simp_all add: poll_def queue_response_def busy_queue_def json_response_def queue_doc_def
      queue_ids_def json_in_def json_getitem_def)

theorem wait_for_completion_returns_witness:
  "wait_for_completion two_polls local_api ''job1'' (Finite (1 / 100))
     = Some (Inr True,
         \<lparr>polls = 2, slept = [Finite (1 / 100)],
          wlog = [Waiting, RunningJobs [JStr ''job1''], PendingJobs [],
                  RunningJobs [], PendingJobs [], WorkflowCompleted]\<rparr>)
   \<and> wait_for_completion busy_queue local_api ''job1'' (Finite (1 / 100))
     = Some (Inr True,
         \<lparr>polls = 5,
          slept = [Finite (1 / 100), Finite (1 / 100), Finite (1 / 100), Finite (1 / 100)],
          wlog = [Waiting, RunningJobs [], PendingJobs [JStr ''job1''],
                  QueueCheckFailed 503,
                  RunningJobs [JStr ''job1''], PendingJobs [],
                  RunningJobs [JStr ''job2''], PendingJobs [],
                  RunningJobs [], PendingJobs [], WorkflowCompleted]\<rparr>)"
proof -
  have iv: "(0 :: real) \<le> 1 / 100" "(1 / 100 :: real) * 10 ^ 9 < 2 ^ 63"
    by simp_all
  have two: "\<forall>j<Suc 0. retries (poll (queue_response two_polls local_api j) ''job1'')"
    by (simp add: poll_two_polls retries_def)
  have busy: "\<forall>j<Suc (Suc (Suc (Suc 0))).
      retries (poll (queue_response busy_queue local_api j) ''job1'')"
    by (auto simp: less_Suc_eq poll_busy_queue retries_def)
  note t = wait_for_completion_returns [OF iv, THEN conjunct2, THEN conjunct1, rule_format]
  have "wait_for_completion two_polls local_api ''job1'' (Finite (1 / 100))
     = Some (Inr True,
         \<lparr>polls = Suc (Suc 0), slept = replicate (Suc 0) (Finite (1 / 100)),
          wlog = run_log two_polls local_api ''job1'' (Suc 0)
                 @ [RunningJobs [], PendingJobs [], WorkflowCompleted]\<rparr>)"
    using poll_two_polls(2) two by (intro t) simp
  moreover have "wait_for_completion busy_queue local_api ''job1'' (Finite (1 / 100))
     = Some (Inr True,
         \<lparr>polls = Suc (Suc (Suc (Suc (Suc 0)))),
          slept = replicate (Suc (Suc (Suc (Suc 0)))) (Finite (1 / 100)),
          wlog = run_log busy_queue local_api ''job1'' (Suc (Suc (Suc (Suc 0))))
                 @ [RunningJobs [], PendingJobs [], WorkflowCompleted]\<rparr>)"
    using poll_busy_queue(5) busy by (intro t) simp
  ultimately show ?thesis
    by (simp add: run_log_def pass_log_def poll_two_polls poll_busy_queue upt_rec [of 0]
        upt_rec [of "Suc _"] numeral_eq_Suc)
qed

text \<open>
  Claim C8, as stated, fails when \<^verbatim>\<open>time.sleep\<close> refuses the interval: the reply of
  status 503 is printed, the sleep that follows raises, and the exception ends the
  call on that poll. The interval is \<open>-1\<close>, a NaN, infinite, and \<open>10 ^ 10\<close> seconds.
\<close>

theorem wait_loop_refused_interval_counterexample:
  "status_code (queue_response recovering local_api 0) = 503
   \<and> wait_for_completion recovering local_api ''job1'' (Finite (- 1))
       = Some (Inl ValueError,
           \<lparr>polls = 1, slept = [], wlog = [Waiting, QueueCheckFailed 503]\<rparr>)
   \<and> wait_for_completion recovering local_api ''job1'' NaN
       = Some (Inl ValueError,
           \<lparr>polls = 1, slept = [], wlog = [Waiting, QueueCheckFailed 503]\<rparr>)
   \<and> wait_for_completion recovering local_api ''job1'' PosInf
       = Some (Inl OverflowError,
           \<lparr>polls = 1, slept = [], wlog = [Waiting, QueueCheckFailed 503]\<rparr>)
   \<and> wait_for_completion recovering local_api ''job1'' (Finite (10 ^ 10))
       = Some (Inl OverflowError,
           \<lparr>polls = 1, slept = [], wlog = [Waiting, QueueCheckFailed 503]\<rparr>)"
proof -
  have p: "poll (queue_response recovering local_api 0) ''job1'' = Failed 503"
    by (simp add: poll_def queue_response_def recovering_def json_response_def)
  have "wait_for_completion recovering local_api ''job1'' iv
       = Some (Inl e, \<lparr>polls = 1, slept = [], wlog = [Waiting, QueueCheckFailed 503]\<rparr>)"
    if "py_sleep iv = Some e" for iv e
    unfolding wait_for_completion_def
    by (subst wait_loop.simps) (simp add: p that)
  moreover have "py_sleep (Finite (- 1)) = Some ValueError" "py_sleep NaN = Some ValueError"
    "py_sleep PosInf = Some OverflowError" "py_sleep (Finite (10 ^ 10)) = Some OverflowError"
    by (simp_all add: py_sleep_def)
  ultimately show ?thesis
    by (simp add: queue_response_def recovering_def json_response_def)
qed

lemma run_log_failed:
  assumes "\<forall>j<m. status_code (queue_response get self j) \<notin> {200..299}"
  shows "run_log get self pid m
     = Waiting # map (\<lambda>j. QueueCheckFailed (status_code (queue_response get self j))) [0..<m]"
proof -
  have "concat (map (\<lambda>j. pass_log (poll (queue_response get self j) pid)) [0..<m])
      = map (\<lambda>j. QueueCheckFailed (status_code (queue_response get self j))) [0..<m]"
    using assms
  proof (induction m)
    case 0
    show ?case by simp
  next
    case (Suc m)
    then have "status_code (queue_response get self m) \<noteq> 200"
      by auto
    then have "pass_log (poll (queue_response get self m) pid)
        = [QueueCheckFailed (status_code (queue_response get self m))]"
      by (simp add: poll_failed pass_log_def)
    with Suc show ?case by simp
  qed
  then show ?thesis
    by (simp add: run_log_def)
qed

text \<open>
  Claim C8, amended. Let the interval be a number of seconds \<open>t\<close> that \<^verbatim>\<open>time.sleep\<close>
  accepts: not negative, and less than \<open>2 ^ 63\<close> nanoseconds. A reply whose status is
  outside 200 to 299 is a failed check, for which the pass prints one line with the
  status. Such a pass is retried: when poll \<open>m\<close> is the first that is not retried, the
  call has sent \<open>m + 1\<close> polls and slept \<open>m\<close> times, each time for the interval, and its
  result is that of poll \<open>m\<close>; when every poll before \<open>m\<close> had a status outside 200 to
  299, what the call has printed before the lines of poll \<open>m\<close> is one line for each of
  them, in order. A call that returns or raises does so on a poll whose reply has
  status 200, every poll before it having been retried; and when every reply has a
  status outside 200 to 299 the call never returns.
\<close>

theorem wait_loop_transient_failure:
  assumes "0 \<le> t" and "t * 10 ^ 9 < 2 ^ 63"
  shows "(\<forall>r :: response. status_code r \<notin> {200..299} \<longrightarrow>
            poll r pid = Failed (status_code r)
            \<and> pass_log (poll r pid) = [QueueCheckFailed (status_code r)])
   \<and> (\<forall>m. \<not> retries (poll (queue_response get self m) pid)
           \<and> (\<forall>j<m. retries (poll (queue_response get self j) pid))
         \<longrightarrow> wait_for_completion get self pid (Finite t)
             = Some (pass_result (poll (queue_response get self m) pid),
                 \<lparr>polls = Suc m, slept = replicate m (Finite t),
                  wlog = run_log get self pid m
                         @ pass_log (poll (queue_response get self m) pid)\<rparr>))
   \<and> (\<forall>m. \<not> retries (poll (queue_response get self m) pid)
           \<and> (\<forall>j<m. status_code (queue_response get self j) \<notin> {200..299})
         \<longrightarrow> wait_for_completion get self pid (Finite t)
             = Some (pass_result (poll (queue_response get self m) pid),
                 \<lparr>polls = Suc m, slept = replicate m (Finite t),
                  wlog = Waiting
                    # map (\<lambda>j. QueueCheckFailed (status_code (queue_response get self j))) [0..<m]
                    @ pass_log (poll (queue_response get self m) pid)\<rparr>))
   \<and> (\<forall>res s. wait_for_completion get self pid (Finite t) = Some (res, s) \<longrightarrow>
          0 < polls s \<and> status_code (queue_response get self (polls s - 1)) = 200
          \<and> (\<forall>j<polls s - 1. retries (poll (queue_response get self j) pid)))
   \<and> ((\<forall>j. status_code (queue_response get self j) \<notin> {200..299})
         \<longrightarrow> wait_for_completion get self pid (Finite t) = None)
   \<and> (\<forall>code. retries (Failed code) \<and> pass_result (Failed code) = Inr True)"
proof -
  let ?iv = "Finite t"
  from assms have iv: "py_sleep ?iv = None"
    by (rule py_sleep_finite)
  have failed: "poll r pid = Failed (status_code r)
      \<and> pass_log (poll r pid) = [QueueCheckFailed (status_code r)]"
    if "status_code r \<notin> {200..299}" for r :: response
  proof -
    from that have "status_code r \<noteq> 200" by auto
    then show ?thesis by (simp add: poll_failed pass_log_def)
  qed
  then have retried: "retries (poll r pid)" if "status_code r \<notin> {200..299}" for r :: response
    using that by (simp add: retries_def)
  have stop: "wait_for_completion get self pid ?iv
             = Some (pass_result (poll (queue_response get self m) pid),
                 \<lparr>polls = Suc m, slept = replicate m ?iv,
                  wlog = run_log get self pid m
                         @ pass_log (poll (queue_response get self m) pid)\<rparr>)"
    if "\<not> retries (poll (queue_response get self m) pid)"
      and "\<forall>j<m. retries (poll (queue_response get self j) pid)" for m
    using that(2) that(1) iv by (rule wait_result)
  have stop': "wait_for_completion get self pid ?iv
             = Some (pass_result (poll (queue_response get self m) pid),
                 \<lparr>polls = Suc m, slept = replicate m ?iv,
                  wlog = Waiting
                    # map (\<lambda>j. QueueCheckFailed (status_code (queue_response get self j))) [0..<m]
                    @ pass_log (poll (queue_response get self m) pid)\<rparr>)"
    if "\<not> retries (poll (queue_response get self m) pid)"
      and "\<forall>j<m. status_code (queue_response get self j) \<notin> {200..299}" for m
  proof -
    from that(2) retried have "\<forall>j<m. retries (poll (queue_response get self j) pid)"
      by blast
    from stop [OF that(1) this] show ?thesis
      by (simp add: run_log_failed [OF that(2)])
  qed
  have ended: "0 < polls s \<and> status_code (queue_response get self (polls s - 1)) = 200
          \<and> (\<forall>j<polls s - 1. retries (poll (queue_response get self j) pid))"
    if r: "wait_for_completion get self pid ?iv = Some (res, s)" for res s
  proof -
    from r have "wait_loop get self pid ?iv \<lparr>polls = 0, slept = [], wlog = [Waiting]\<rparr>
        = Some (res, s)"
      by (simp add: wait_for_completion_def)
    from wait_loop_sound [OF this iv] obtain k
      where "\<not> retries (poll (queue_response get self k) pid)"
      by auto
    then obtain m where m: "\<not> retries (poll (queue_response get self m) pid)"
      "\<forall>j<m. retries (poll (queue_response get self j) pid)"
      by (rule first_stop)
    from stop [OF m] r have "polls s = Suc m"
      by auto
    moreover from m(1) have "status_code (queue_response get self m) = 200"
      by (cases "status_code (queue_response get self m) = 200")
        (auto simp: retries_def poll_failed)
    ultimately show ?thesis
      using m(2) by simp
  qed
  have never: "wait_for_completion get self pid ?iv = None"
    if "\<forall>j. status_code (queue_response get self j) \<notin> {200..299}"
  proof -
    from that retried have "\<forall>j. retries (poll (queue_response get self j) pid)"
      by blast
    then show ?thesis using iv by (rule wait_forever)
  qed
  have kind: "retries (Failed code) \<and> pass_result (Failed code) = Inr True" for code
    by (simp add: retries_def pass_result_def)
  from failed stop stop' ended never kind show ?thesis
    by (intro conjI) blast+
qed

lemma poll_outage:
  "poll (queue_response outage local_api (Suc (Suc (Suc 0)))) ''job1'' = Raised JSONDecodeError"
  by (simp add: poll_def queue_response_def outage_def)

lemma poll_recovering:
  "poll (queue_response recovering local_api (Suc 0)) ''job1'' = Done [] []"
  by (simp add: poll_def queue_response_def recovering_def json_response_def queue_doc_def
      queue_ids_def json_in_def json_getitem_def)

theorem wait_loop_transient_failure_witness:
  "wait_for_completion recovering local_api ''job1'' (Finite 1)
     = Some (Inr True,
         \<lparr>polls = 2, slept = [Finite 1],
          wlog = [Waiting, QueueCheckFailed 503, RunningJobs [], PendingJobs [],
                  WorkflowCompleted]\<rparr>)
   \<and> wait_for_completion outage local_api ''job1'' (Finite (1 / 2))
     = Some (Inl JSONDecodeError,
         \<lparr>polls = 4, slept = [Finite (1 / 2), Finite (1 / 2), Finite (1 / 2)],
          wlog = [Waiting, QueueCheckFailed 500, QueueCheckFailed 404, QueueCheckFailed 503]\<rparr>)"
proof -
  have one: "(0 :: real) \<le> 1" "(1 :: real) * 10 ^ 9 < 2 ^ 63"
    and half: "(0 :: real) \<le> 1 / 2" "(1 / 2 :: real) * 10 ^ 9 < 2 ^ 63"
    by simp_all
  have r: "\<forall>j<Suc 0. status_code (queue_response recovering local_api j) \<notin> {200..299}"
    by (simp add: queue_response_def recovering_def json_response_def)
  have o: "\<forall>j<Suc (Suc (Suc 0)). status_code (queue_response outage local_api j) \<notin> {200..299}"
    by (auto simp: less_Suc_eq queue_response_def outage_def json_response_def)
  have "wait_for_completion recovering local_api ''job1'' (Finite 1)
     = Some (pass_result (poll (queue_response recovering local_api (Suc 0)) ''job1''),
         \<lparr>polls = Suc (Suc 0), slept = replicate (Suc 0) (Finite 1),
          wlog = Waiting
            # map (\<lambda>j. QueueCheckFailed (status_code (queue_response recovering local_api j)))
                [0..<Suc 0]
            @ pass_log (poll (queue_response recovering local_api (Suc 0)) ''job1'')\<rparr>)"
    using r
    by (intro wait_loop_transient_failure
        [OF one, THEN conjunct2, THEN conjunct2, THEN conjunct1, rule_format])
      (simp_all add: poll_recovering retries_def)
  moreover have "wait_for_completion outage local_api ''job1'' (Finite (1 / 2))
     = Some (pass_result (poll (queue_response outage local_api (Suc (Suc (Suc 0)))) ''job1''),
         \<lparr>polls = Suc (Suc (Suc (Suc 0))), slept = replicate (Suc (Suc (Suc 0))) (Finite (1 / 2)),
          wlog = Waiting
            # map (\<lambda>j. QueueCheckFailed (status_code (queue_response outage local_api j)))
                [0..<Suc (Suc (Suc 0))]
            @ pass_log (poll (queue_response outage local_api (Suc (Suc (Suc 0)))) ''job1'')\<rparr>)"
    using o
    by (intro wait_loop_transient_failure
        [OF half, THEN conjunct2, THEN conjunct2, THEN conjunct1, rule_format])
      (simp_all add: poll_outage retries_def)
  ultimately show ?thesis
    unfolding poll_outage poll_recovering
    by (simp add: pass_result_def pass_log_def queue_response_def
        recovering_def outage_def json_response_def numeral_eq_Suc)
qed

section \<open>Properties of \<^verbatim>\<open>get_history\<close>\<close>

text \<open>
  Claim C9. When the GET of the history succeeds (status 200, a JSON object) and the
  identifier is not among the keys of the history, \<open>get_history\<close> returns the empty
  record and raises nothing; it prints a warning and stores the document fetched.
\<close>

theorem get_history_unknown_job:
  assumes "status_code (history_response get self n) = 200"
    and "json_body (history_response get self n) = Some (JObj kvs)"
    and "pid \<notin> fst ` set kvs"
  shows "get_history get n self pid
     = (Inr (JObj []), self\<lparr>history_data := JObj kvs\<rparr>, [WarnNoHistory pid])"
  using assms
  by (simp add: get_history_def json_in_def map_of_eq_None_iff)

theorem get_history_unknown_job_witness:
  "get_history history_server 0 local_api ''p7''
     = (Inr (JObj []), local_api\<lparr>history_data := history_doc\<rparr>, [WarnNoHistory ''p7''])"
proof -
  have "status_code (history_response history_server local_api 0) = 200"
    and "json_body (history_response history_server local_api 0)
      = Some (JObj [(''p42'', JObj [(''outputs'',
        JObj [(''9'', JObj [(''images'', JArr [JObj [(''filename'', JStr ''img_0001_.png'')]])])])])])"
    and "''p7'' \<notin> fst ` set [(''p42'', JObj [(''outputs'',
        JObj [(''9'', JObj [(''images'', JArr [JObj [(''filename'', JStr ''img_0001_.png'')]])])])])]"
    by (simp_all add: history_response_def history_server_def json_response_def history_doc_def)
  from get_history_unknown_job [OF this] show ?thesis
    by (simp add: history_doc_def)
qed

section \<open>Properties of \<^verbatim>\<open>download_images\<close>\<close>

text \<open>The attempts for two lists of file names, one after the other.\<close>

lemma spec_attempts_append:
  "spec_attempts E server n (xs @ ys)
     = spec_attempts E server n xs @ spec_attempts E server (n + length xs) ys"
  by (induction xs arbitrary: n) simp_all

lemma length_spec_attempts: "length (spec_attempts E server n xs) = length xs"
  by (induction xs arbitrary: n) simp_all

lemma after_attempts_Nil: "after_attempts output_dir [] s = s"
  by (simp add: after_attempts_def answered_def)

lemma after_attempts_append:
  "after_attempts output_dir (as @ bs) s
     = after_attempts output_dir bs (after_attempts output_dir as s)"
  by (simp add: after_attempts_def answered_def)

lemma reqs_after_attempts: "reqs (after_attempts output_dir atts s) = reqs s + length atts"
  by (simp add: after_attempts_def)

lemma spec_filenames_append: "spec_filenames (xs @ ys) = spec_filenames xs @ spec_filenames ys"
  by (simp add: spec_filenames_def)

lemma spec_filenames_Cons: "spec_filenames (d # ds) = descriptor_filename d @ spec_filenames ds"
  by (simp add: spec_filenames_def)

text \<open>After \<open>xs\<close> and then \<open>ys\<close>, the state is the one after the attempts for \<open>xs @ ys\<close>.\<close>

lemma after_attempts_chain:
  "after_attempts output_dir
       (spec_attempts E server (reqs (after_attempts output_dir (spec_attempts E server n xs) s)) ys)
       (after_attempts output_dir (spec_attempts E server n xs) s)
     = after_attempts output_dir (spec_attempts E server n (xs @ ys)) s"
  if "reqs s = n"
  using that
  by (simp add: spec_attempts_append after_attempts_append reqs_after_attempts length_spec_attempts)

text \<open>
  On outputs of the shape of the data model, with every file openable, each of the
  nested loops raises nothing and leaves the state that the attempts for its file
  names lead to. One lemma for each loop, from the innermost outwards.
\<close>

lemma download_one_wf:
  assumes "wf_descriptor d"
    and "\<forall>fn \<in> set (descriptor_filename d). fs_open E (local_file output_dir fn) = None"
  shows "download_one E server output_dir d s
     = (None, after_attempts output_dir
                (spec_attempts E server (reqs s) (descriptor_filename d)) s)"
proof (cases d)
  case (JObj kvs)
  show ?thesis
  proof (cases "map_of kvs ''filename''")
    case None
    with JObj show ?thesis
      by (simp add: download_one_def json_get_def descriptor_filename_def after_attempts_Nil)
  next
    case (Some v)
    show ?thesis
    proof (cases v)
      case (JStr fn)
      with JObj Some assms(2) show ?thesis
        by (auto simp: download_one_def json_get_def descriptor_filename_def after_attempts_def
            answered_def attempt_event_def Let_def)
    qed (use JObj Some assms(1) in
        \<open>simp_all add: download_one_def json_get_def descriptor_filename_def after_attempts_Nil
            wf_descriptor_def\<close>)
  qed
qed (use assms(1) in \<open>simp_all add: wf_descriptor_def\<close>)

lemma download_list_wf:
  assumes "list_all wf_descriptor items"
    and "\<forall>fn \<in> set (spec_filenames items). fs_open E (local_file output_dir fn) = None"
  shows "download_list E server output_dir items s
     = (None, after_attempts output_dir
                (spec_attempts E server (reqs s) (spec_filenames items)) s)"
  using assms
proof (induction items arbitrary: s)
  case Nil
  show ?case by (simp add: spec_filenames_def after_attempts_Nil)
next
  case (Cons d ds)
  from Cons.prems have d: "wf_descriptor d"
    "\<forall>fn \<in> set (descriptor_filename d). fs_open E (local_file output_dir fn) = None"
    and ds: "list_all wf_descriptor ds"
    "\<forall>fn \<in> set (spec_filenames ds). fs_open E (local_file output_dir fn) = None"
    by (simp_all add: spec_filenames_Cons)
  show ?case
    by (simp add: download_one_wf [OF d] Cons.IH [OF ds] spec_filenames_Cons
        after_attempts_chain)
qed

lemma download_kinds_wf:
  assumes "list_all wf_kind kinds"
    and "\<forall>fn \<in> set (spec_filenames (concat (map kind_descriptors kinds))).
           fs_open E (local_file output_dir fn) = None"
  shows "download_kinds E server output_dir kinds s
     = (None, after_attempts output_dir
                (spec_attempts E server (reqs s)
                   (spec_filenames (concat (map kind_descriptors kinds)))) s)"
  using assms
proof (induction kinds arbitrary: s)
  case Nil
  show ?case by (simp add: spec_filenames_def after_attempts_Nil)
next
  case (Cons kind rest)
  obtain output_type output_data where kind: "kind = (output_type, output_data)"
    by (cases kind)
  from Cons.prems have rest: "list_all wf_kind rest"
    "\<forall>fn \<in> set (spec_filenames (concat (map kind_descriptors rest))).
           fs_open E (local_file output_dir fn) = None"
    by (simp_all add: spec_filenames_append)
  show ?case
  proof (cases "output_type = ''images''")
    case False
    then show ?thesis
      by (simp add: kind Cons.IH [OF rest] kind_descriptors_def)
  next
    case True
    with Cons.prems(1) kind obtain items where items: "output_data = JArr items"
      "list_all wf_descriptor items"
      by (auto simp: wf_kind_def split: json.splits)
    from Cons.prems(2) kind True items(1)
    have "\<forall>fn \<in> set (spec_filenames items). fs_open E (local_file output_dir fn) = None"
      by (simp add: spec_filenames_append kind_descriptors_def)
    note l = download_list_wf [OF items(2) this]
    from True items(1) show ?thesis
      by (simp add: kind json_iter_def l Cons.IH [OF rest] kind_descriptors_def
          spec_filenames_append after_attempts_chain)
  qed
qed

lemma download_nodes_wf:
  assumes "wf_outputs nodes"
    and "\<forall>fn \<in> set (spec_filenames (spec_descriptors nodes)).
           fs_open E (local_file output_dir fn) = None"
  shows "download_nodes E server output_dir nodes s
     = (None, after_attempts output_dir
                (spec_attempts E server (reqs s) (spec_filenames (spec_descriptors nodes))) s)"
  using assms
proof (induction nodes arbitrary: s)
  case Nil
  show ?case by (simp add: spec_filenames_def spec_descriptors_def after_attempts_Nil)
next
  case (Cons node rest)
  obtain node_id node_output where node: "node = (node_id, node_output)"
    by (cases node)
  from Cons.prems(1) node obtain kinds where kinds: "node_output = JObj kinds"
    "list_all wf_kind kinds"
    by (auto simp: wf_outputs_def wf_node_def split: json.splits)
  from Cons.prems node kinds(1) have rest: "wf_outputs rest"
    "\<forall>fn \<in> set (spec_filenames (spec_descriptors rest)).
           fs_open E (local_file output_dir fn) = None"
    and "\<forall>fn \<in> set (spec_filenames (concat (map kind_descriptors kinds))).
           fs_open E (local_file output_dir fn) = None"
    by (simp_all add: wf_outputs_def spec_descriptors_def spec_filenames_append
        node_descriptors_def)
  note k = download_kinds_wf [OF kinds(2) this(3)]
  from kinds(1) show ?case
    by (simp add: node json_items_def k Cons.IH [OF rest] spec_descriptors_def
        node_descriptors_def spec_filenames_append after_attempts_chain)
qed

text \<open>
  Claim C5, as stated, fails for a file whose GET is answered with a status in the
  range 200 to 299 other than 200: line 208 compares the status with 200, so for an
  answer \<^verbatim>\<open>201\<close> no file is written and the list returned is empty, although the
  descriptor has a file name and its GET did not return a status outside that range.
\<close>

theorem download_images_created_counterexample:
  "(200 :: int) \<le> 201 \<and> (201 :: int) < 300
   \<and> status_code (http_get created_env 1 (view_url (server_address local_api) ''img_0001_.png'')) = 201
   \<and> download_images created_env 0 local_api ''p42'' ''output/test''
       = (Inr [],
          \<lparr>client = local_api\<lparr>history_data := history_doc\<rparr>,
           reqs = 2, dirs = [''output/test''], files = [], downloaded = [],
           dlog = [ImageDownloadFailed ''img_0001_.png'' 201]\<rparr>)"
  by (simp add: download_images_def get_history_def history_response_def created_env_def
      json_response_def file_response_def history_doc_def local_api_def json_in_def
      json_getitem_def json_get_def json_items_def json_iter_def no_outputs_def
      download_one_def view_url_def local_file_def Let_def)

text \<open>
  Claim C5, amended. Let the history record be fetched. If it is empty or has no
  \<^verbatim>\<open>outputs\<close>, \<open>download_images\<close> returns the empty list with a warning and creates
  nothing. If its outputs have the shape of the data model, the directory can be
  created and the files opened, then there is one GET for each file descriptor with a
  non-empty file name under the kind \<^verbatim>\<open>images\<close>, in the order of the document; each
  one answered with status 200 writes the body to
  \<^verbatim>\<open>output_dir/basename(filename)\<close>, each other one is printed and skipped without
  ending the loop; and the list returned is exactly the list of the paths written, in
  that order.
\<close>

theorem download_images_result:
  assumes "get_history (http_get E) n self pid = (Inr history, self', out)"
  shows "(no_outputs history = Inr True \<longrightarrow>
            download_images E n self pid output_dir
              = (Inr [],
                 \<lparr>client = self', reqs = Suc n, dirs = [], files = [], downloaded = [],
                  dlog = out @ [WarnNoOutputs pid]\<rparr>))
     \<and> (history = JObj hkvs \<and> map_of hkvs ''outputs'' = Some (JObj nodes)
           \<and> wf_outputs nodes \<and> fs_makedirs E output_dir = None
           \<and> (\<forall>fn \<in> set (spec_filenames (spec_descriptors nodes)).
                 fs_open E (local_file output_dir fn) = None)
         \<longrightarrow> download_images E n self pid output_dir
              = (Inr (map (\<lambda>a. local_file output_dir (fst a))
                        (answered (spec_attempts E (server_address self) (Suc n)
                           (spec_filenames (spec_descriptors nodes))))),
                 \<lparr>client = self',
                  reqs = Suc n + length (spec_filenames (spec_descriptors nodes)),
                  dirs = [output_dir],
                  files = map (\<lambda>a. (local_file output_dir (fst a), content (snd a)))
                            (answered (spec_attempts E (server_address self) (Suc n)
                               (spec_filenames (spec_descriptors nodes)))),
                  downloaded = map (\<lambda>a. local_file output_dir (fst a))
                            (answered (spec_attempts E (server_address self) (Suc n)
                               (spec_filenames (spec_descriptors nodes)))),
                  dlog = out @ map (attempt_event output_dir)
                            (spec_attempts E (server_address self) (Suc n)
                               (spec_filenames (spec_descriptors nodes)))\<rparr>))"
proof (intro conjI allI impI)
  assume "no_outputs history = Inr True"
  with assms show "download_images E n self pid output_dir
              = (Inr [],
                 \<lparr>client = self', reqs = Suc n, dirs = [], files = [], downloaded = [],
                  dlog = out @ [WarnNoOutputs pid]\<rparr>)"
    by (simp add: download_images_def)
next
  assume a: "history = JObj hkvs \<and> map_of hkvs ''outputs'' = Some (JObj nodes)
           \<and> wf_outputs nodes \<and> fs_makedirs E output_dir = None
           \<and> (\<forall>fn \<in> set (spec_filenames (spec_descriptors nodes)).
                 fs_open E (local_file output_dir fn) = None)"
  then have "hkvs \<noteq> []"
    by auto
  with a have no: "no_outputs history = Inr False"
    by (simp add: no_outputs_def json_in_def)
  from a have wf: "wf_outputs nodes"
    and op: "\<forall>fn \<in> set (spec_filenames (spec_descriptors nodes)).
                 fs_open E (local_file output_dir fn) = None"
    by simp_all
  from a assms no show "download_images E n self pid output_dir
              = (Inr (map (\<lambda>a. local_file output_dir (fst a))
                        (answered (spec_attempts E (server_address self) (Suc n)
                           (spec_filenames (spec_descriptors nodes))))),
                 \<lparr>client = self',
                  reqs = Suc n + length (spec_filenames (spec_descriptors nodes)),
                  dirs = [output_dir],
                  files = map (\<lambda>a. (local_file output_dir (fst a), content (snd a)))
                            (answered (spec_attempts E (server_address self) (Suc n)
                               (spec_filenames (spec_descriptors nodes)))),
                  downloaded = map (\<lambda>a. local_file output_dir (fst a))
                            (answered (spec_attempts E (server_address self) (Suc n)
                               (spec_filenames (spec_descriptors nodes)))),
                  dlog = out @ map (attempt_event output_dir)
                            (spec_attempts E (server_address self) (Suc n)
                               (spec_filenames (spec_descriptors nodes)))\<rparr>)"
    by (simp add: download_images_def json_get_def json_items_def
        download_nodes_wf [OF wf op] after_attempts_def length_spec_attempts)
qed

lemma gallery_history:
  "get_history (http_get gallery_env) 0 local_api ''p42''
     = (Inr (JObj [(''outputs'',
        JObj [(''9'', JObj [(''images'',
                 JArr [JObj [(''filename'', JStr ''img_0001_.png''), (''type'', JStr ''output'')],
                       JObj [(''filename'', JStr ''sub/img_0002_.png'')]]),
                (''text'', JArr [JStr ''done''])]),
              (''12'', JObj [(''images'',
                 JArr [JObj [(''filename'', JStr [])],
                       JObj [(''filename'', JStr ''img_0003_.png'')]])])])]),
        local_api\<lparr>history_data := gallery_doc\<rparr>, [])"
  by (simp add: get_history_def history_response_def gallery_env_def json_response_def
      gallery_doc_def json_in_def json_getitem_def)

lemma unknown_history:
  "get_history (http_get gallery_env) 0 local_api ''p7''
     = (Inr (JObj []), local_api\<lparr>history_data := gallery_doc\<rparr>, [WarnNoHistory ''p7''])"
  by (simp add: get_history_def history_response_def gallery_env_def json_response_def
      gallery_doc_def json_in_def json_getitem_def)

theorem download_images_result_witness:
  "download_images gallery_env 0 local_api ''p42'' ''output/test''
     = (Inr [''output/test/img_0001_.png'', ''output/test/img_0003_.png''],
        \<lparr>client = local_api\<lparr>history_data := gallery_doc\<rparr>,
         reqs = 4, dirs = [''output/test''],
         files = [(''output/test/img_0001_.png'',
                   ''image http://127.0.0.1:8188/view?filename=img_0001_.png''),
                  (''output/test/img_0003_.png'',
                   ''image http://127.0.0.1:8188/view?filename=img_0003_.png'')],
         downloaded = [''output/test/img_0001_.png'', ''output/test/img_0003_.png''],
         dlog = [ImageDownloaded ''output/test/img_0001_.png'',
                 ImageDownloadFailed ''sub/img_0002_.png'' 404,
                 ImageDownloaded ''output/test/img_0003_.png'']\<rparr>)
   \<and> download_images gallery_env 0 local_api ''p7'' ''output/test''
     = (Inr [],
        \<lparr>client = local_api\<lparr>history_data := gallery_doc\<rparr>,
         reqs = 1, dirs = [], files = [], downloaded = [],
         dlog = [WarnNoHistory ''p7'', WarnNoOutputs ''p7'']\<rparr>)"
proof -
  let ?nodes = "[(''9'', JObj [(''images'',
                 JArr [JObj [(''filename'', JStr ''img_0001_.png''), (''type'', JStr ''output'')],
                       JObj [(''filename'', JStr ''sub/img_0002_.png'')]]),
                (''text'', JArr [JStr ''done''])]),
              (''12'', JObj [(''images'',
                 JArr [JObj [(''filename'', JStr [])],
                       JObj [(''filename'', JStr ''img_0003_.png'')]])])]"
  have fns: "spec_filenames (spec_descriptors ?nodes)
      = [''img_0001_.png'', ''sub/img_0002_.png'', ''img_0003_.png'']"
    by (simp add: spec_filenames_def spec_descriptors_def node_descriptors_def
        kind_descriptors_def descriptor_filename_def)
  have wf: "wf_outputs ?nodes"
    by (simp add: wf_outputs_def wf_node_def wf_kind_def wf_descriptor_def)
  have env: "fs_makedirs gallery_env ''output/test'' = None"
    "\<forall>fn \<in> set (spec_filenames (spec_descriptors ?nodes)).
        fs_open gallery_env (local_file ''output/test'' fn) = None"
    by (simp_all add: gallery_env_def)
  have atts: "spec_attempts gallery_env (server_address local_api) (Suc 0)
        [''img_0001_.png'', ''sub/img_0002_.png'', ''img_0003_.png'']
      = [(''img_0001_.png'',
           file_response 200 ''image http://127.0.0.1:8188/view?filename=img_0001_.png''),
         (''sub/img_0002_.png'', file_response 404 ''not found''),
         (''img_0003_.png'',
           file_response 200 ''image http://127.0.0.1:8188/view?filename=img_0003_.png'')]"
    by (simp add: gallery_env_def view_url_def local_api_def)
  have paths: "local_file ''output/test'' ''img_0001_.png'' = ''output/test/img_0001_.png''"
    "local_file ''output/test'' ''img_0003_.png'' = ''output/test/img_0003_.png''"
    by (simp_all add: local_file_def path_join_def basename_def)
  let ?A = "spec_attempts gallery_env (server_address local_api) (Suc 0)
      (spec_filenames (spec_descriptors ?nodes))"
  have r: "download_images gallery_env 0 local_api ''p42'' ''output/test''
     = (Inr (map (\<lambda>a. local_file ''output/test'' (fst a)) (answered ?A)),
        \<lparr>client = local_api\<lparr>history_data := gallery_doc\<rparr>,
         reqs = Suc 0 + length (spec_filenames (spec_descriptors ?nodes)),
         dirs = [''output/test''],
         files = map (\<lambda>a. (local_file ''output/test'' (fst a), content (snd a))) (answered ?A),
         downloaded = map (\<lambda>a. local_file ''output/test'' (fst a)) (answered ?A),
         dlog = [] @ map (attempt_event ''output/test'') ?A\<rparr>)"
    by (rule download_images_result
        [OF gallery_history, where output_dir = "''output/test''" and nodes = ?nodes
          and hkvs = "[(''outputs'', JObj ?nodes)]", THEN conjunct2, THEN mp])
      (simp add: wf env)
  have "download_images gallery_env 0 local_api ''p42'' ''output/test''
     = (Inr [''output/test/img_0001_.png'', ''output/test/img_0003_.png''],
        \<lparr>client = local_api\<lparr>history_data := gallery_doc\<rparr>,
         reqs = 4, dirs = [''output/test''],
         files = [(''output/test/img_0001_.png'',
                   ''image http://127.0.0.1:8188/view?filename=img_0001_.png''),
                  (''output/test/img_0003_.png'',
                   ''image http://127.0.0.1:8188/view?filename=img_0003_.png'')],
         downloaded = [''output/test/img_0001_.png'', ''output/test/img_0003_.png''],
         dlog = [ImageDownloaded ''output/test/img_0001_.png'',
                 ImageDownloadFailed ''sub/img_0002_.png'' 404,
                 ImageDownloaded ''output/test/img_0003_.png'']\<rparr>)"
    unfolding r fns atts
    by (simp add: answered_def attempt_event_def file_response_def paths)
  moreover have "download_images gallery_env 0 local_api ''p7'' ''output/test''
     = (Inr [],
        \<lparr>client = local_api\<lparr>history_data := gallery_doc\<rparr>,
         reqs = 1, dirs = [], files = [], downloaded = [],
         dlog = [WarnNoHistory ''p7'', WarnNoOutputs ''p7'']\<rparr>)"
    using download_images_result [OF unknown_history, of "''output/test''"]
    by (simp add: no_outputs_def)
  ultimately show ?thesis by simp
qed

end
